theory Spec2Isabelle
  imports Main
begin

unbundle bit_operations_syntax

text \<open>
  A model of GlacierScript (\<^verbatim>\<open>glacierscript.py\<close>), the script of the Glacier
  protocol for cold storage of bitcoin: the unit conversion, the combination of two
  entropy sources into a key, the selection of unspent outputs, the construction of the
  unsigned transaction, the negotiation of the fee, the amounts of a withdrawal, the
  splitting of data over QR codes, and the derivation of a multisig deposit address.
  First the definitions, function by function as the script has them; then what holds
  of them.
\<close>

section \<open>Errors\<close>

text \<open>
  Every exception the modelled code can raise is a value. \<open>SystemExit\<close> is what
  \<^verbatim>\<open>sys.exit()\<close> raises; \<open>Exception\<close> carries the message of a plain
  \<^verbatim>\<open>raise Exception(...)\<close>; \<open>EOFError\<close> is \<^verbatim>\<open>input()\<close> on an exhausted
  standard input; \<open>CalledProcessError\<close> is \<^verbatim>\<open>bitcoin_cli_checkoutput\<close> on a
  nonzero return code.
\<close>

datatype py_error = ValueError | InvalidOperation | DivisionByZero | SystemExit | EOFError
  | StopIteration | CalledProcessError | Exception string

section \<open>Python's Decimal, as far as the script uses it\<close>

text \<open>
  A finite \<^verbatim>\<open>Decimal\<close> is a signed coefficient and an exponent: \<open>Decimal c e\<close>
  stands for \<open>c * 10^e\<close>. The script never changes the default context, so arithmetic
  results are rounded to 28 significant digits, half to even. Not represented: NaN,
  infinities, a negative zero, and the exponent limits of the context (\<open>\<plusminus>999999\<close>).
\<close>

datatype decimal = Decimal (coef: int) (expo: int)

definition prec :: nat where
  "prec = 28"

text \<open>\<^verbatim>\<open>len(str(n))\<close>: the number of decimal digits of the coefficient.\<close>

fun ndigits :: "nat \<Rightarrow> nat" where
  "ndigits n = (if n < 10 then 1 else Suc (ndigits (n div 10)))"

declare ndigits.simps [simp del]

text \<open>Dropping the last \<open>k\<close> digits of a magnitude, \<^verbatim>\<open>ROUND_HALF_EVEN\<close>.\<close>

definition round_half_even :: "nat \<Rightarrow> nat \<Rightarrow> nat" where
  "round_half_even m k =
     (let q = m div 10 ^ k; r = m mod 10 ^ k
      in if 10 ^ k < 2 * r \<or> (2 * r = 10 ^ k \<and> odd q) then q + 1 else q)"

text \<open>\<^verbatim>\<open>Decimal._rescale(exp, ROUND_HALF_EVEN)\<close>: pad with zeros, or round digits away.\<close>

definition dec_rescale :: "decimal \<Rightarrow> int \<Rightarrow> decimal" where
  "dec_rescale d e =
     (if coef d = 0 then Decimal 0 e
      else if e \<le> expo d then Decimal (coef d * 10 ^ nat (expo d - e)) e
      else Decimal (sgn (coef d) * int (round_half_even (nat \<bar>coef d\<bar>) (nat (e - expo d)))) e)"

text \<open>
  \<^verbatim>\<open>Decimal._fix(context)\<close>: a coefficient of more than \<open>prec\<close> digits is rounded
  to \<open>prec\<close> digits; when rounding carries into a further digit, the last one is dropped.
\<close>

definition dec_fix :: "decimal \<Rightarrow> decimal" where
  "dec_fix d =
     (let n = ndigits (nat \<bar>coef d\<bar>)
      in if coef d = 0 \<or> n \<le> prec then d
         else let k = n - prec; q = round_half_even (nat \<bar>coef d\<bar>) k
              in if prec < ndigits q then Decimal (sgn (coef d) * int (q div 10)) (expo d + int k + 1)
                 else Decimal (sgn (coef d) * int q) (expo d + int k))"

text \<open>
  \<^verbatim>\<open>Decimal.quantize(exp)\<close>: the value at the exponent of \<open>e\<close>; raises
  \<^verbatim>\<open>InvalidOperation\<close> when that takes more than \<open>prec\<close> digits.
\<close>

definition quantize :: "decimal \<Rightarrow> decimal \<Rightarrow> py_error + decimal" where
  "quantize d e =
     (if coef d = 0 then Inr (dec_fix (Decimal 0 (expo e)))
      else if int prec < int (ndigits (nat \<bar>coef d\<bar>)) + expo d - 1 - expo e + 1
        then Inl InvalidOperation
      else let ans = dec_rescale d (expo e)
           in if prec < ndigits (nat \<bar>coef ans\<bar>) then Inl InvalidOperation
              else Inr (dec_fix ans))"

text \<open>
  Division: the loop of \<^verbatim>\<open>Decimal.__truediv__\<close> that, for an exact quotient, removes
  trailing zeros while the exponent is below the ideal one.
\<close>

function strip_zeros :: "nat \<Rightarrow> int \<Rightarrow> int \<Rightarrow> nat \<times> int" where
  "strip_zeros coeff exp ideal_exp =
     (if exp < ideal_exp \<and> coeff mod 10 = 0 then strip_zeros (coeff div 10) (exp + 1) ideal_exp
      else (coeff, exp))"
  by pat_completeness auto
termination
  by (relation "measure (\<lambda>(c, e, i). nat (i - e))") auto

declare strip_zeros.simps [simp del]

definition dec_div :: "decimal \<Rightarrow> decimal \<Rightarrow> py_error + decimal" where
  "dec_div a b =
     (if coef b = 0 then Inl (if coef a = 0 then InvalidOperation else DivisionByZero)
      else if coef a = 0 then Inr (dec_fix (Decimal 0 (expo a - expo b)))
      else
        let n1 = nat \<bar>coef a\<bar>; n2 = nat \<bar>coef b\<bar>;
            shift = int (ndigits n2) - int (ndigits n1) + int prec + 1;
            exp = expo a - expo b - shift;
            num = (if 0 \<le> shift then n1 * 10 ^ nat shift else n1);
            den = (if 0 \<le> shift then n2 else n2 * 10 ^ nat (- shift));
            q = num div den; r = num mod den;
            ce = (if r \<noteq> 0 then (if q mod 5 = 0 then q + 1 else q, exp)
                  else strip_zeros q exp (expo a - expo b))
        in Inr (dec_fix (Decimal (sgn (coef a) * sgn (coef b) * int (fst ce)) (snd ce))))"

definition dec_mul :: "decimal \<Rightarrow> decimal \<Rightarrow> decimal" where
  "dec_mul a b = dec_fix (Decimal (coef a * coef b) (expo a + expo b))"

text \<open>\<^verbatim>\<open>int(d)\<close> truncates towards zero.\<close>

definition dec_to_int :: "decimal \<Rightarrow> int" where
  "dec_to_int d =
     (if 0 \<le> expo d then coef d * 10 ^ nat (expo d)
      else sgn (coef d) * (\<bar>coef d\<bar> div 10 ^ nat (- expo d)))"

text \<open>
  Addition, \<^verbatim>\<open>Decimal.__add__\<close>. \<open>normalize_ops\<close> is \<^verbatim>\<open>_normalize\<close>: both operands
  are brought to one exponent, and an operand too small to matter at \<open>prec\<close> digits is
  replaced by a unit placeholder.
\<close>

definition normalize_ops :: "decimal \<Rightarrow> decimal \<Rightarrow> decimal \<times> decimal" where
  "normalize_ops op1 op2 =
     (let swap = expo op1 < expo op2;
          tmp = (if swap then op2 else op1);
          other = (if swap then op1 else op2);
          tmp_len = ndigits (nat \<bar>coef tmp\<bar>);
          other_len = ndigits (nat \<bar>coef other\<bar>);
          exp = expo tmp + min (- 1) (int tmp_len - int prec - 2);
          other' = (if int other_len + expo other - 1 < exp then Decimal (sgn (coef other)) exp
                    else other);
          tmp' = Decimal (coef tmp * 10 ^ nat (expo tmp - expo other')) (expo other')
      in if swap then (other', tmp') else (tmp', other'))"

definition dec_add :: "decimal \<Rightarrow> decimal \<Rightarrow> decimal" where
  "dec_add a b =
     (let exp = min (expo a) (expo b)
      in if coef a = 0 \<and> coef b = 0 then dec_fix (Decimal 0 exp)
         else if coef a = 0 then dec_fix (dec_rescale b (max exp (expo b - int prec - 1)))
         else if coef b = 0 then dec_fix (dec_rescale a (max exp (expo a - int prec - 1)))
         else let ops = normalize_ops a b; op1 = fst ops; op2 = snd ops
              in if coef op1 + coef op2 = 0 then dec_fix (Decimal 0 exp)
                 else dec_fix (Decimal (coef op1 + coef op2) (expo op1)))"

definition dec_neg :: "decimal \<Rightarrow> decimal" where
  "dec_neg d = Decimal (- coef d) (expo d)"

definition dec_sub :: "decimal \<Rightarrow> decimal \<Rightarrow> decimal" where
  "dec_sub a b = dec_add a (dec_neg b)"

text \<open>
  Comparison is exact, whatever the context: the coefficients are compared at the
  smaller of the two exponents.
\<close>

definition dec_less :: "decimal \<Rightarrow> decimal \<Rightarrow> bool" where
  "dec_less a b =
     (let m = min (expo a) (expo b)
      in coef a * 10 ^ nat (expo a - m) < coef b * 10 ^ nat (expo b - m))"

text \<open>
  A Python float is a binary fraction; \<open>PyFloat n k\<close> is \<open>n / 2^k\<close>, the pair that
  \<^verbatim>\<open>as_integer_ratio\<close> returns. Comparing a Decimal with a float converts the float
  exactly, as \<^verbatim>\<open>Decimal.from_float\<close> does.
\<close>

datatype pyfloat = PyFloat int nat

fun from_float :: "pyfloat \<Rightarrow> decimal" where
  "from_float (PyFloat n k) = Decimal (n * 5 ^ k) (- int k)"

text \<open>
  The two float literals of the script: \<^verbatim>\<open>.005\<close> is the double
  \<^verbatim>\<open>0x1.47ae147ae147bp-8\<close> and \<^verbatim>\<open>1e-8\<close> is the double \<^verbatim>\<open>0x1.5798ee2308c3ap-27\<close>.
\<close>

definition MAX_FEE :: pyfloat where
  "MAX_FEE = PyFloat 5764607523034235 60"

definition float_1e_8 :: pyfloat where
  "float_1e_8 = PyFloat 3022314549036573 78"

text \<open>\<^verbatim>\<open>str\<close> of a non-negative integer, and of a Decimal (\<^verbatim>\<open>Decimal.__str__\<close>).\<close>

fun str_nat :: "nat \<Rightarrow> string" where
  "str_nat n =
     (if n < 10 then [''0123456789'' ! n]
      else str_nat (n div 10) @ [''0123456789'' ! (n mod 10)])"

declare str_nat.simps [simp del]

definition str_int :: "int \<Rightarrow> string" where
  "str_int i = (if i < 0 then ''-'' else '''') @ str_nat (nat \<bar>i\<bar>)"

definition dec_str :: "decimal \<Rightarrow> string" where
  "dec_str d =
     (let digits = str_nat (nat \<bar>coef d\<bar>);
          leftdigits = expo d + int (length digits);
          dotplace = (if expo d \<le> 0 \<and> - 6 < leftdigits then leftdigits else 1);
          intpart = (if dotplace \<le> 0 then ''0''
                     else if int (length digits) \<le> dotplace
                       then digits @ replicate (nat (dotplace - int (length digits))) (CHR ''0'')
                     else take (nat dotplace) digits);
          fracpart = (if dotplace \<le> 0 then ''.'' @ replicate (nat (- dotplace)) (CHR ''0'') @ digits
                      else if int (length digits) \<le> dotplace then ''''
                      else ''.'' @ drop (nat dotplace) digits);
          exp = (if leftdigits = dotplace then ''''
                 else ''E'' @ (if leftdigits - dotplace < 0 then ''-'' else ''+'')
                        @ str_nat (nat \<bar>leftdigits - dotplace\<bar>))
      in (if coef d < 0 then ''-'' else '''') @ intpart @ fracpart @ exp)"

section \<open>Unit conversion\<close>

definition SATOSHI_PLACES :: decimal where
  "SATOSHI_PLACES = Decimal 1 (- 8)"

definition satoshi_to_btc :: "int \<Rightarrow> py_error + decimal" where
  "satoshi_to_btc satoshi =
     (case dec_div (Decimal satoshi 0) (Decimal 100000000 0) of
        Inl e \<Rightarrow> Inl e
      | Inr v \<Rightarrow> quantize v SATOSHI_PLACES)"

definition btc_to_satoshi :: "decimal \<Rightarrow> int" where
  "btc_to_satoshi btc = dec_to_int (dec_mul btc (Decimal 100000000 0))"

section \<open>Strings\<close>

text \<open>
  Strings are lists of 8-bit characters. \<^verbatim>\<open>str.upper\<close> is modelled on ASCII: the
  letters \<^verbatim>\<open>a\<close> to \<^verbatim>\<open>z\<close> move to upper case and every other character stays.
\<close>

definition upper_char :: "char \<Rightarrow> char" where
  "upper_char c =
     (case map_of (zip ''abcdefghijklmnopqrstuvwxyz'' ''ABCDEFGHIJKLMNOPQRSTUVWXYZ'') c of
        None \<Rightarrow> c
      | Some u \<Rightarrow> u)"

definition upper :: "string \<Rightarrow> string" where
  "upper s = map upper_char s"

text \<open>\<^verbatim>\<open>string.replace(" ", "")\<close>.\<close>

definition unchunk :: "string \<Rightarrow> string" where
  "unchunk s = filter (\<lambda>c. c \<noteq> CHR '' '') s"

text \<open>
  \<^verbatim>\<open>int(s, 16)\<close> on a string of hexadecimal digits. Python also accepts a sign, a
  \<^verbatim>\<open>0x\<close> prefix, underscores between digits and surrounding blanks; a string of
  that kind is outside this model, which reports \<open>ValueError\<close> for it.
\<close>

definition hex_digit_value :: "char \<Rightarrow> nat option" where
  "hex_digit_value c =
     map_of (zip ''0123456789abcdefABCDEF''
                 [0, 1, 2, 3, 4, 5, 6, 7, 8, 9, 10, 11, 12, 13, 14, 15, 10, 11, 12, 13, 14, 15]) c"

fun int_base16_from :: "int \<Rightarrow> string \<Rightarrow> py_error + int" where
  "int_base16_from acc [] = Inr acc"
| "int_base16_from acc (c # cs) =
     (case hex_digit_value c of
        None \<Rightarrow> Inl ValueError
      | Some v \<Rightarrow> int_base16_from (acc * 16 + int v) cs)"

definition int_base16 :: "string \<Rightarrow> py_error + int" where
  "int_base16 s = (if s = [] then Inl ValueError else int_base16_from 0 s)"

text \<open>
  \<^verbatim>\<open>"{:0{}x}".format(x, width)\<close>: lower-case hexadecimal digits, padded with zeros
  after the sign up to \<open>width\<close> characters, never cut.
\<close>

fun hex_nat :: "nat \<Rightarrow> string" where
  "hex_nat n =
     (if n < 16 then [''0123456789abcdef'' ! n]
      else hex_nat (n div 16) @ [''0123456789abcdef'' ! (n mod 16)])"

declare hex_nat.simps [simp del]

definition format_0x :: "int \<Rightarrow> nat \<Rightarrow> string" where
  "format_0x x width =
     (let digits = hex_nat (nat \<bar>x\<bar>); sign = (if x < 0 then ''-'' else '''')
      in sign @ replicate (width - length sign - length digits) (CHR ''0'') @ digits)"

text \<open>\<^verbatim>\<open>"{:02d}".format(idx)\<close> for the index of an artifact, which is at least 1.\<close>

definition format_02d :: "nat \<Rightarrow> string" where
  "format_02d idx = (let digits = str_nat idx in replicate (2 - length digits) (CHR ''0'') @ digits)"

section \<open>Private key generation\<close>

definition xor_hex_strings :: "string \<Rightarrow> string \<Rightarrow> py_error + string" where
  "xor_hex_strings str1 str2 =
     (if length str1 \<noteq> length str2 then Inl (Exception ''tried to xor strings of unequal length'')
      else case int_base16 str1 of
             Inl e \<Rightarrow> Inl e
           | Inr str1_dec \<Rightarrow>
               (case int_base16 str2 of
                  Inl e \<Rightarrow> Inl e
                | Inr str2_dec \<Rightarrow> Inr (format_0x (str1_dec XOR str2_dec) (length str1))))"

text \<open>
  A valid hex-digit string, in the sense of the entropy combiner: at least one
  character, each a hexadecimal digit of either case.
\<close>

definition hex_string :: "string \<Rightarrow> bool" where
  "hex_string s = (s \<noteq> [] \<and> list_all (\<lambda>c. hex_digit_value c \<noteq> None) s)"

text \<open>
  Library functions the script only calls are parameters of the model: \<open>int_of_str\<close> is
  \<^verbatim>\<open>int(s)\<close> (\<open>None\<close> when it raises \<^verbatim>\<open>ValueError\<close>), \<open>sha256\<close> is
  \<^verbatim>\<open>hash_sha256\<close>, and \<open>b58encode_check\<close> takes the hexadecimal text that
  \<^verbatim>\<open>bytes.fromhex\<close> would decode. \<open>decimal_of_str\<close> is \<^verbatim>\<open>Decimal(s)\<close> on a
  string, which is exact: \<open>None\<close> when the text is not the numeral of a finite number.
\<close>

record lib =
  int_of_str :: "string \<Rightarrow> int option"
  sha256 :: "string \<Rightarrow> string"
  b58encode_check :: "string \<Rightarrow> string"
  wif_prefix :: string
  decimal_of_str :: "string \<Rightarrow> decimal option"

definition hex_private_key_to_WIF_private_key :: "lib \<Rightarrow> string \<Rightarrow> string" where
  "hex_private_key_to_WIF_private_key l hex_key = b58encode_check l (wif_prefix l @ hex_key @ ''01'')"

section \<open>Reading and validating the operator's entropy\<close>

text \<open>
  Standard input is the list of lines still to be read; a function that reads returns
  the lines it left. The messages printed are not modelled.
\<close>

definition validate_rng_seed :: "string \<Rightarrow> int \<Rightarrow> bool" where
  "validate_rng_seed seed min_length =
     (if int (length seed) < min_length then False
      else if length seed mod 2 \<noteq> 0 then False
      else case int_base16 seed of Inl e \<Rightarrow> False | Inr v \<Rightarrow> True)"

fun read_rng_seed_loop :: "int \<Rightarrow> string list \<Rightarrow> py_error + string \<times> string list" where
  "read_rng_seed_loop char_length [] = Inl EOFError"
| "read_rng_seed_loop char_length (line # rest) =
     (if validate_rng_seed (unchunk line) char_length then Inr (unchunk line, rest)
      else read_rng_seed_loop char_length rest)"

definition read_rng_seed_interactive :: "int \<Rightarrow> string list \<Rightarrow> py_error + string \<times> string list" where
  "read_rng_seed_interactive min_length stdin = read_rng_seed_loop (min_length * 2) stdin"

text \<open>
  A die is valid when \<^verbatim>\<open>int(die)\<close> is between 1 and 6, which for one ASCII character
  means one of \<^verbatim>\<open>1\<close> to \<^verbatim>\<open>6\<close>.
\<close>

definition valid_die :: "char \<Rightarrow> bool" where
  "valid_die die = (die \<in> set ''123456'')"

definition validate_dice_seed :: "string \<Rightarrow> int \<Rightarrow> bool" where
  "validate_dice_seed dice min_length =
     (if int (length dice) < min_length then False else list_all valid_die dice)"

fun read_dice_seed_interactive :: "int \<Rightarrow> string list \<Rightarrow> py_error + string \<times> string list" where
  "read_dice_seed_interactive min_length [] = Inl EOFError"
| "read_dice_seed_interactive min_length (line # rest) =
     (if validate_dice_seed (unchunk line) min_length then Inr (unchunk line, rest)
      else read_dice_seed_interactive min_length rest)"

section \<open>User sanity checking\<close>

fun yes_no_interactive :: "string list \<Rightarrow> py_error + bool \<times> string list" where
  "yes_no_interactive [] = Inl EOFError"
| "yes_no_interactive (confirm # rest) =
     (if upper confirm = ''Y'' then Inr (True, rest)
      else if upper confirm = ''N'' then Inr (False, rest)
      else yes_no_interactive rest)"

fun safety_checks :: "nat \<Rightarrow> string list \<Rightarrow> py_error + string list" where
  "safety_checks 0 stdin = Inr stdin"
| "safety_checks (Suc k) [] = Inl EOFError"
| "safety_checks (Suc k) (answer # rest) =
     (if upper answer \<noteq> ''Y'' then Inl SystemExit else safety_checks k rest)"

text \<open>The checklist has six questions.\<close>

definition safety_checklist :: "string list \<Rightarrow> py_error + string list" where
  "safety_checklist stdin = safety_checks 6 stdin"

section \<open>Decoded transactions and the node\<close>

text \<open>
  A decoded transaction in the format of \<^verbatim>\<open>bitcoin-cli decoderawtransaction\<close>, with
  the fields the script reads. The \<^verbatim>\<open>address\<close> field of a locking script is
  optional: versions of the node before 22.0 do not write it.
\<close>

record script_pub_key =
  spk_address :: "string option"
  spk_hex :: string

record tx_output =
  out_n :: int
  out_value :: pyfloat
  out_scriptPubKey :: script_pub_key

record transaction =
  tx_txid :: string
  tx_vout :: "tx_output list"

text \<open>
  The loop of \<^verbatim>\<open>get_utxos\<close>: \<open>utxos\<close> is the list built so far, the second argument
  the outputs still to visit.
\<close>

fun get_utxos_loop :: "string \<Rightarrow> tx_output list \<Rightarrow> tx_output list \<Rightarrow> tx_output list" where
  "get_utxos_loop address [] utxos = utxos"
| "get_utxos_loop address (output # rest) utxos =
     (case spk_address (out_scriptPubKey output) of
        None \<Rightarrow> get_utxos_loop address rest utxos
      | Some a \<Rightarrow>
          if address = a then get_utxos_loop address rest (utxos @ [output])
          else get_utxos_loop address rest utxos)"

definition get_utxos :: "transaction \<Rightarrow> string \<Rightarrow> tx_output list" where
  "get_utxos tx address = get_utxos_loop address (tx_vout tx) []"

text \<open>
  The values of the destinations dictionary are Python objects: the integer \<^verbatim>\<open>0\<close>
  while the fee is negotiated, strings afterwards. An integer never equals a string.
\<close>

datatype pyval = IntVal int | StrVal string

type_synonym destinations = "(string \<times> pyval) list"

text \<open>
  An \<^verbatim>\<open>OrderedDict\<close> is the list of its items in insertion order. \<open>od_set\<close> is
  \<^verbatim>\<open>d[k] = v\<close>: a key already present keeps its place. \<open>ordered_dict\<close> is the
  constructor applied to a sequence of pairs.
\<close>

fun od_set :: "'k \<Rightarrow> 'v \<Rightarrow> ('k \<times> 'v) list \<Rightarrow> ('k \<times> 'v) list" where
  "od_set k v [] = [(k, v)]"
| "od_set k v (p # ps) = (if fst p = k then (k, v) # ps else p # od_set k v ps)"

definition ordered_dict :: "('k \<times> 'v) list \<Rightarrow> ('k \<times> 'v) list" where
  "ordered_dict pairs = foldl (\<lambda>d p. od_set (fst p) (snd p) d) [] pairs"

text \<open>
  The generator \<^verbatim>\<open>(key, val) for key, val in destinations.items() if val != '0'\<close>.
\<close>

fun items_not_zero_string :: "destinations \<Rightarrow> destinations" where
  "items_not_zero_string [] = []"
| "items_not_zero_string ((key, val) # rest) =
     (if val \<noteq> StrVal ''0'' then (key, val) # items_not_zero_string rest
      else items_not_zero_string rest)"

record tx_input =
  in_txid :: string
  in_vout :: int

fun unsigned_inputs :: "string \<Rightarrow> transaction list \<Rightarrow> tx_input list \<Rightarrow> tx_input list" where
  "unsigned_inputs source_address [] inputs = inputs"
| "unsigned_inputs source_address (tx # rest) inputs =
     unsigned_inputs source_address rest
       (inputs @ map (\<lambda>utxo. \<lparr>in_txid = tx_txid tx, in_vout = out_n utxo\<rparr>)
                   (get_utxos tx source_address))"

record sign_input =
  si_txid :: string
  si_vout :: int
  si_amount :: pyfloat
  si_scriptPubKey :: string
  si_redeemScript :: string

fun signing_inputs :: "string \<Rightarrow> string \<Rightarrow> transaction list \<Rightarrow> sign_input list \<Rightarrow> sign_input list" where
  "signing_inputs source_address redeem_script [] inputs = inputs"
| "signing_inputs source_address redeem_script (tx # rest) inputs =
     signing_inputs source_address redeem_script rest
       (inputs @ map (\<lambda>utxo. \<lparr>si_txid = tx_txid tx, si_vout = out_n utxo,
                              si_amount = out_value utxo,
                              si_scriptPubKey = spk_hex (out_scriptPubKey utxo),
                              si_redeemScript = redeem_script\<rparr>)
                   (get_utxos tx source_address))"

record signed_tx =
  stx_hex :: string
  stx_complete :: bool

text \<open>
  The node behind \<^verbatim>\<open>bitcoin-cli\<close>, one function per command the script sends;
  \<open>None\<close> is a nonzero return code. Starting the daemon and waiting for it
  (\<^verbatim>\<open>ensure_bitcoind_running\<close>) succeeds or times out, as \<open>bitcoind_starts\<close> says.
\<close>

record node =
  bitcoind_starts :: bool
  getnetworkinfo_version :: "int option"
  getaddressesbylabel :: "string \<Rightarrow> string list option"
  addmultisigaddress_cli :: "int \<Rightarrow> string list \<Rightarrow> string \<Rightarrow> (string \<times> string) option"
  createrawtransaction :: "tx_input list \<Rightarrow> destinations \<Rightarrow> string option"
  signrawtransactionwithkey :: "string \<Rightarrow> string list \<Rightarrow> sign_input list \<Rightarrow> signed_tx option"
  decoderawtransaction_vsize :: "string \<Rightarrow> int option"

text \<open>
  The two arguments \<^verbatim>\<open>create_unsigned_transaction\<close> hands to
  \<^verbatim>\<open>createrawtransaction\<close>: the inputs and the pruned destinations.
\<close>

definition createrawtransaction_args ::
  "string \<Rightarrow> destinations \<Rightarrow> transaction list \<Rightarrow> tx_input list \<times> destinations" where
  "createrawtransaction_args source_address dests input_txs =
     (unsigned_inputs source_address input_txs [],
      ordered_dict (items_not_zero_string dests))"

definition create_unsigned_transaction ::
  "node \<Rightarrow> string \<Rightarrow> destinations \<Rightarrow> string \<Rightarrow> transaction list \<Rightarrow> py_error + string" where
  "create_unsigned_transaction nd source_address dests redeem_script input_txs =
     (if \<not> bitcoind_starts nd then Inl (Exception ''Timeout while starting bitcoin server'')
      else case createrawtransaction nd
                  (fst (createrawtransaction_args source_address dests input_txs))
                  (snd (createrawtransaction_args source_address dests input_txs)) of
             None \<Rightarrow> Inl CalledProcessError
           | Some tx_unsigned_hex \<Rightarrow> Inr tx_unsigned_hex)"

definition sign_transaction ::
  "node \<Rightarrow> string \<Rightarrow> string list \<Rightarrow> string \<Rightarrow> string \<Rightarrow> transaction list \<Rightarrow> py_error + signed_tx" where
  "sign_transaction nd source_address keys redeem_script unsigned_hex input_txs =
     (case signrawtransactionwithkey nd unsigned_hex keys
             (signing_inputs source_address redeem_script input_txs []) of
        None \<Rightarrow> Inl CalledProcessError
      | Some signed \<Rightarrow> Inr signed)"

section \<open>Fee negotiation\<close>

text \<open>
  One pass of the loop of \<^verbatim>\<open>get_fee_interactive\<close> up to the computed fee: the
  placeholder transaction is built and signed, its virtual size read, and the fee
  converted to bitcoin.
\<close>

definition computed_fee ::
  "node \<Rightarrow> string \<Rightarrow> string list \<Rightarrow> destinations \<Rightarrow> string \<Rightarrow> transaction list \<Rightarrow> int
     \<Rightarrow> py_error + decimal" where
  "computed_fee nd source_address keys dests redeem_script input_txs fee_basis_satoshis_per_byte =
     (case create_unsigned_transaction nd source_address dests redeem_script input_txs of
        Inl e \<Rightarrow> Inl e
      | Inr unsigned_tx \<Rightarrow>
          (case sign_transaction nd source_address keys redeem_script unsigned_tx input_txs of
             Inl e \<Rightarrow> Inl e
           | Inr signed \<Rightarrow>
               (case decoderawtransaction_vsize nd (stx_hex signed) of
                  None \<Rightarrow> Inl CalledProcessError
                | Some vsize \<Rightarrow> satoshi_to_btc (vsize * fee_basis_satoshis_per_byte))))"

text \<open>
  The loop itself. A fee above \<open>MAX_FEE\<close> sends the loop back to the prompt for a
  rate; any other fee is shown and the operator is asked to confirm it.
\<close>

lemma yes_no_interactive_shorter:
  "yes_no_interactive stdin = Inr (b, rest) \<Longrightarrow> length rest < length stdin"
  by (induction stdin) (auto split: if_splits)

function get_fee_interactive ::
  "lib \<Rightarrow> node \<Rightarrow> string \<Rightarrow> string list \<Rightarrow> destinations \<Rightarrow> string \<Rightarrow> transaction list
     \<Rightarrow> string list \<Rightarrow> py_error + decimal \<times> string list" where
  "get_fee_interactive l nd source_address keys dests redeem_script input_txs [] =
     (if bitcoind_starts nd then Inl EOFError
      else Inl (Exception ''Timeout while starting bitcoin server''))"
| "get_fee_interactive l nd source_address keys dests redeem_script input_txs (line # rest) =
     (if \<not> bitcoind_starts nd then Inl (Exception ''Timeout while starting bitcoin server'')
      else case int_of_str l line of
        None \<Rightarrow> Inl ValueError
      | Some fee_basis_satoshis_per_byte \<Rightarrow>
          (case computed_fee nd source_address keys dests redeem_script input_txs
                  fee_basis_satoshis_per_byte of
             Inl e \<Rightarrow> Inl e
           | Inr fee \<Rightarrow>
               if dec_less (from_float MAX_FEE) fee
               then get_fee_interactive l nd source_address keys dests redeem_script input_txs rest
               else (case yes_no_interactive rest of
                       Inl e \<Rightarrow> Inl e
                     | Inr (confirm, rest') \<Rightarrow>
                         if confirm then Inr (fee, rest')
                         else get_fee_interactive l nd source_address keys dests redeem_script
                                input_txs rest')))"
  by pat_completeness auto
termination
  by (relation "measure (\<lambda>(l, nd, sa, ks, ds, rs, txs, stdin). length stdin)")
     (auto dest: yes_no_interactive_shorter)

declare get_fee_interactive.simps [simp del]

section \<open>Withdrawal: amount and change\<close>

text \<open>
  The part of \<^verbatim>\<open>withdraw_interactive\<close> after the fee is known. \<open>input_amount\<close> is
  the sum of the unspent outputs, \<open>fee\<close> the negotiated fee, and \<open>entry\<close> the amount
  the operator typed, already read as a Decimal; \<open>None\<close> is the blank line that
  withdraws everything.

  \<open>withdraw_amounts\<close> returns the withdrawal amount and the change as first computed;
  its two failures are the \<^verbatim>\<open>sys.exit()\<close> for a fee above the input and the
  exception for outputs above the input.
\<close>

definition withdraw_amounts ::
  "decimal \<Rightarrow> decimal \<Rightarrow> decimal option \<Rightarrow> py_error + decimal \<times> decimal" where
  "withdraw_amounts input_amount fee entry =
     (if dec_less input_amount fee then Inl SystemExit
      else case (case entry of
                   None \<Rightarrow> Inr (dec_sub input_amount fee)
                 | Some amount \<Rightarrow> quantize amount SATOSHI_PLACES) of
             Inl e \<Rightarrow> Inl e
           | Inr withdrawal_amount \<Rightarrow>
               if dec_less input_amount (dec_add fee withdrawal_amount)
               then Inl (Exception ''Output values greater than input value'')
               else Inr (withdrawal_amount,
                         dec_sub (dec_sub input_amount withdrawal_amount) fee))"

text \<open>
  After the test against the float \<^verbatim>\<open>1e-8\<close> the change is either the Python integer
  \<^verbatim>\<open>0\<close> or the Decimal it was.
\<close>

datatype pynum = PyInt int | PyDec decimal

fun py_str :: "pynum \<Rightarrow> string" where
  "py_str (PyInt i) = str_int i"
| "py_str (PyDec d) = dec_str d"

definition floor_change :: "decimal \<Rightarrow> pynum" where
  "floor_change change_amount =
     (if dec_less change_amount (from_float float_1e_8) then PyInt 0 else PyDec change_amount)"

text \<open>
  The dictionary \<^verbatim>\<open>addresses\<close> starts with the integer 0 for the source and the
  destination address, in this order, and receives the two amounts as strings.
\<close>

definition initial_addresses :: "string \<Rightarrow> string \<Rightarrow> destinations" where
  "initial_addresses source_address dest_address =
     od_set dest_address (IntVal 0) (od_set source_address (IntVal 0) [])"

record withdrawal_plan =
  plan_withdrawal_amount :: decimal
  plan_change_amount :: pynum
  plan_addresses :: destinations

definition withdraw_finalize ::
  "string \<Rightarrow> string \<Rightarrow> decimal \<Rightarrow> decimal \<Rightarrow> decimal option \<Rightarrow> py_error + withdrawal_plan" where
  "withdraw_finalize source_address dest_address input_amount fee entry =
     (case withdraw_amounts input_amount fee entry of
        Inl e \<Rightarrow> Inl e
      | Inr (withdrawal_amount, change) \<Rightarrow>
          Inr \<lparr>plan_withdrawal_amount = withdrawal_amount,
               plan_change_amount = floor_change change,
               plan_addresses =
                 od_set source_address (StrVal (py_str (floor_change change)))
                   (od_set dest_address (StrVal (dec_str withdrawal_amount))
                      (initial_addresses source_address dest_address))\<rparr>)"

text \<open>
  The total of the unspent outputs found at the source address: each value, a float of
  the decoded transaction, becomes a Decimal exactly and is rounded to eight places; the
  total starts at \<^verbatim>\<open>Decimal(0).quantize(SATOSHI_PLACES)\<close>, which is \<open>Decimal 0 (- 8)\<close>.
\<close>

fun utxo_sum :: "tx_output list \<Rightarrow> decimal \<Rightarrow> py_error + decimal" where
  "utxo_sum [] amount = Inr amount"
| "utxo_sum (utxo # rest) amount =
     (case quantize (from_float (out_value utxo)) SATOSHI_PLACES of
        Inl e \<Rightarrow> Inl e
      | Inr val \<Rightarrow> utxo_sum rest (dec_add amount val))"

text \<open>
  The part \<^emph>\<open>fees, amount, and change\<close> of one pass of the loop of
  \<^verbatim>\<open>withdraw_interactive\<close>, in the order of the code. The fee is negotiated first,
  over the dictionary that holds the integer 0 for both addresses: this is where the node
  builds and signs a first transaction. Then the fee is compared with the input, the amount
  is read from the next line, and the plan is computed. The comparison of the fee with the
  input comes before the line is read; \<open>withdraw_finalize\<close> makes it once more, to no
  effect.

  A line that is not blank goes through \<^verbatim>\<open>Decimal(...)\<close>. Text that is no numeral raises
  \<open>InvalidOperation\<close> there; the numerals of an infinity or a NaN raise it in the
  rounding or in the comparison that follows. All of them are the \<open>None\<close> of
  \<open>decimal_of_str\<close>.
\<close>

definition withdraw_fee_amount_change ::
  "lib \<Rightarrow> node \<Rightarrow> string \<Rightarrow> string \<Rightarrow> string \<Rightarrow> transaction list \<Rightarrow> string list \<Rightarrow> decimal
     \<Rightarrow> string list \<Rightarrow> py_error + (decimal \<times> withdrawal_plan) \<times> string list" where
  "withdraw_fee_amount_change l nd source_address dest_address redeem_script txs keys input_amount
       stdin =
     (case get_fee_interactive l nd source_address keys
             (initial_addresses source_address dest_address) redeem_script txs stdin of
        Inl e \<Rightarrow> Inl e
      | Inr (fee, stdin1) \<Rightarrow>
          if dec_less input_amount fee then Inl SystemExit
          else (case stdin1 of
                  [] \<Rightarrow> Inl EOFError
                | withdrawal_amount # stdin2 \<Rightarrow>
                    (case (if withdrawal_amount = [] then Inr None
                           else case decimal_of_str l withdrawal_amount of
                                  None \<Rightarrow> Inl InvalidOperation
                                | Some amount \<Rightarrow> Inr (Some amount)) of
                       Inl e \<Rightarrow> Inl e
                     | Inr entry \<Rightarrow>
                         (case withdraw_finalize source_address dest_address input_amount fee
                                 entry of
                            Inl e \<Rightarrow> Inl e
                          | Inr plan \<Rightarrow> Inr ((fee, plan), stdin2)))))"

text \<open>
  The rest of the pass: the operator confirms the plan or not. Without confirmation the
  loop starts over, which is the result \<open>None\<close>; with it the loop ends, and the
  transaction of the plan is built and signed.
\<close>

definition withdraw_pass ::
  "lib \<Rightarrow> node \<Rightarrow> string \<Rightarrow> string \<Rightarrow> string \<Rightarrow> transaction list \<Rightarrow> string list \<Rightarrow> decimal
     \<Rightarrow> string list \<Rightarrow> py_error + (string \<times> signed_tx) option \<times> string list" where
  "withdraw_pass l nd source_address dest_address redeem_script txs keys input_amount stdin =
     (case withdraw_fee_amount_change l nd source_address dest_address redeem_script txs keys
             input_amount stdin of
        Inl e \<Rightarrow> Inl e
      | Inr ((fee, plan), stdin3) \<Rightarrow>
          (case yes_no_interactive stdin3 of
             Inl e \<Rightarrow> Inl e
           | Inr (confirm, stdin4) \<Rightarrow>
               if \<not> confirm then Inr (None, stdin4)
               else (case create_unsigned_transaction nd source_address (plan_addresses plan)
                             redeem_script txs of
                       Inl e \<Rightarrow> Inl e
                     | Inr unsigned_tx \<Rightarrow>
                         (case sign_transaction nd source_address keys redeem_script unsigned_tx
                                 txs of
                            Inl e \<Rightarrow> Inl e
                          | Inr signed \<Rightarrow> Inr (Some (unsigned_tx, signed), stdin4)))))"

text \<open>
  The satoshi count of an amount, by \<^verbatim>\<open>btc_to_satoshi\<close>; for the Python integer
  the multiplication by \<^verbatim>\<open>100000000\<close> is integer arithmetic.
\<close>

fun pynum_to_satoshi :: "pynum \<Rightarrow> int" where
  "pynum_to_satoshi (PyInt k) = k * 100000000"
| "pynum_to_satoshi (PyDec d) = btc_to_satoshi d"

section \<open>QR code artifacts\<close>

text \<open>\<^verbatim>\<open>str.rfind\<close> for one character: the last index, or \<open>- 1\<close>.\<close>

fun rfind_from :: "char \<Rightarrow> string \<Rightarrow> int \<Rightarrow> int \<Rightarrow> int" where
  "rfind_from c [] i found = found"
| "rfind_from c (x # xs) i found = rfind_from c xs (i + 1) (if x = c then i else found)"

definition rfind :: "char \<Rightarrow> string \<Rightarrow> int" where
  "rfind c s = rfind_from c s 0 (- 1)"

text \<open>
  \<^verbatim>\<open>os.path.splitext\<close> on a POSIX path: the extension starts at the last dot of the
  last component, unless that component has nothing but dots before it.
\<close>

definition splitext :: "string \<Rightarrow> string \<times> string" where
  "splitext p =
     (let sepIndex = rfind (CHR ''/'') p; dotIndex = rfind (CHR ''.'') p
      in if sepIndex < dotIndex \<and>
            list_ex (\<lambda>c. c \<noteq> CHR ''.'')
              (take (nat (dotIndex - (sepIndex + 1))) (drop (nat (sepIndex + 1)) p))
         then (take (nat dotIndex) p, drop (nat dotIndex) p)
         else (p, []))"

definition MAX_QR_LEN :: "bool \<Rightarrow> nat" where
  "MAX_QR_LEN all_upper_case = (if all_upper_case then 4200 else 2800)"

text \<open>
  The loop that splits the data: each pass writes the next chunk to the file with the
  next index. The result lists the files written, in order, each with its content.
\<close>

function qr_split :: "string \<Rightarrow> string \<Rightarrow> bool \<Rightarrow> nat \<Rightarrow> string \<Rightarrow> (string \<times> string) list" where
  "qr_split base ext all_upper_case idx intdata =
     (if 0 < length intdata
      then (base @ ''-'' @ format_02d idx @ ext, take (MAX_QR_LEN all_upper_case) intdata)
           # qr_split base ext all_upper_case (idx + 1) (drop (MAX_QR_LEN all_upper_case) intdata)
      else [])"
  by pat_completeness auto
termination
  by (relation "measure (\<lambda>(base, ext, u, idx, intdata). length intdata)")
     (auto simp: MAX_QR_LEN_def)

declare qr_split.simps [simp del]

definition qr_files :: "string \<Rightarrow> string \<Rightarrow> (string \<times> string) list" where
  "qr_files filename data =
     (let all_upper_case = (upper data = data)
      in if length data \<le> MAX_QR_LEN all_upper_case then [(filename, data)]
         else qr_split (fst (splitext filename)) (snd (splitext filename)) all_upper_case 1 data)"

text \<open>
  \<^verbatim>\<open>write_and_verify_qr_code\<close>: the files written, and whether the warning is printed.
  \<open>decode_one_qr\<close> is the external reader, given a file as written. Deleting stale
  files beforehand is not modelled.
\<close>

definition write_and_verify_qr_code ::
  "(string \<times> string \<Rightarrow> string) \<Rightarrow> string \<Rightarrow> string \<Rightarrow> (string \<times> string) list \<times> bool" where
  "write_and_verify_qr_code decode_one_qr filename data =
     (qr_files filename data, concat (map decode_one_qr (qr_files filename data)) \<noteq> data)"

section \<open>Deposit\<close>

text \<open>
  Every function of this section returns, next to its result, the calls it made to the
  node, in order.
\<close>

datatype cli_call = EnsureBitcoindRunning | GetNetworkInfo | ImportPrivKey string string
  | GetAddressesByLabel string | AddMultisigAddress int "string list" string

text \<open>The loop that derives the private keys, \<^verbatim>\<open>while len(keys) < n\<close>.\<close>

function make_keys ::
  "lib \<Rightarrow> int \<Rightarrow> int \<Rightarrow> int \<Rightarrow> string list \<Rightarrow> string list
     \<Rightarrow> py_error + string list \<times> string list" where
  "make_keys l dice_seed_length rng_seed_length n keys stdin =
     (if int (length keys) < n then
        (case read_dice_seed_interactive dice_seed_length stdin of
           Inl e \<Rightarrow> Inl e
         | Inr (dice_seed_string, stdin1) \<Rightarrow>
             (case read_rng_seed_interactive rng_seed_length stdin1 of
                Inl e \<Rightarrow> Inl e
              | Inr (rng_seed_string, stdin2) \<Rightarrow>
                  (case xor_hex_strings (sha256 l dice_seed_string) (sha256 l rng_seed_string) of
                     Inl e \<Rightarrow> Inl e
                   | Inr hex_private_key \<Rightarrow>
                       make_keys l dice_seed_length rng_seed_length n
                         (keys @ [hex_private_key_to_WIF_private_key l hex_private_key]) stdin2)))
      else Inr (keys, stdin))"
  by pat_completeness auto
termination
  by (relation "measure (\<lambda>(l, d, r, n, keys, stdin). nat (n - int (length keys)))") auto

declare make_keys.simps [simp del]

definition get_address_for_wif_privkey ::
  "lib \<Rightarrow> node \<Rightarrow> string \<Rightarrow> cli_call list \<times> (py_error + string)" where
  "get_address_for_wif_privkey l nd privkey =
     (let label = sha256 l privkey
      in if \<not> bitcoind_starts nd
         then ([EnsureBitcoindRunning], Inl (Exception ''Timeout while starting bitcoin server''))
         else ([EnsureBitcoindRunning, ImportPrivKey privkey label, GetAddressesByLabel label],
               case getaddressesbylabel nd label of
                 None \<Rightarrow> Inl CalledProcessError
               | Some [] \<Rightarrow> Inl StopIteration
               | Some (a # others) \<Rightarrow> Inr a))"

text \<open>The list comprehension over the keys.\<close>

fun get_addresses :: "lib \<Rightarrow> node \<Rightarrow> string list \<Rightarrow> cli_call list \<times> (py_error + string list)" where
  "get_addresses l nd [] = ([], Inr [])"
| "get_addresses l nd (key # keys) =
     (case get_address_for_wif_privkey l nd key of
        (calls, Inl e) \<Rightarrow> (calls, Inl e)
      | (calls, Inr a) \<Rightarrow>
          (case get_addresses l nd keys of
             (calls', Inl e) \<Rightarrow> (calls @ calls', Inl e)
           | (calls', Inr addrs) \<Rightarrow> (calls @ calls', Inr (a # addrs))))"

text \<open>
  \<^verbatim>\<open>deposit_interactive\<close> up to the list of addresses. The number \<open>m\<close> of required
  keys is not an argument: nothing in this part of the function reads it.
\<close>

definition deposit_keys ::
  "lib \<Rightarrow> node \<Rightarrow> int \<Rightarrow> int \<Rightarrow> int \<Rightarrow> string list
     \<Rightarrow> cli_call list \<times> (py_error + string list \<times> string list)" where
  "deposit_keys l nd n dice_seed_length rng_seed_length stdin =
     (case safety_checklist stdin of
        Inl e \<Rightarrow> ([], Inl e)
      | Inr stdin1 \<Rightarrow>
          if \<not> bitcoind_starts nd
          then ([EnsureBitcoindRunning], Inl (Exception ''Timeout while starting bitcoin server''))
          else (case getnetworkinfo_version nd of
                  None \<Rightarrow> ([EnsureBitcoindRunning, GetNetworkInfo], Inl CalledProcessError)
                | Some version \<Rightarrow>
                    if version < 220000 then ([EnsureBitcoindRunning, GetNetworkInfo], Inl SystemExit)
                    else (case make_keys l dice_seed_length rng_seed_length n [] stdin1 of
                            Inl e \<Rightarrow> ([EnsureBitcoindRunning, GetNetworkInfo], Inl e)
                          | Inr (keys, stdin2) \<Rightarrow>
                              (case get_addresses l nd keys of
                                 (calls, Inl e) \<Rightarrow>
                                   ([EnsureBitcoindRunning, GetNetworkInfo] @ calls, Inl e)
                               | (calls, Inr addrs) \<Rightarrow>
                                   ([EnsureBitcoindRunning, GetNetworkInfo] @ calls,
                                    Inr (keys, addrs))))))"

text \<open>
  What a deposit produces: the keys, the address and the redemption script that are
  printed, and the QR code files written for the last two.
\<close>

record deposit_data =
  dep_keys :: "string list"
  dep_address :: string
  dep_redeem_script :: string
  dep_files :: "(string \<times> string) list"

definition deposit_interactive ::
  "lib \<Rightarrow> node \<Rightarrow> int \<Rightarrow> int \<Rightarrow> int \<Rightarrow> int \<Rightarrow> bool \<Rightarrow> string list
     \<Rightarrow> cli_call list \<times> (py_error + deposit_data)" where
  "deposit_interactive l nd m n dice_seed_length rng_seed_length p2wsh stdin =
     (case deposit_keys l nd n dice_seed_length rng_seed_length stdin of
        (calls, Inl e) \<Rightarrow> (calls, Inl e)
      | (calls, Inr (keys, addrs)) \<Rightarrow>
          (let address_type = (if p2wsh then ''bech32'' else ''p2sh-segwit'')
           in (calls @ [AddMultisigAddress m addrs address_type],
               case addmultisigaddress_cli nd m addrs address_type of
                 None \<Rightarrow> Inl CalledProcessError
               | Some (address, redeem_script) \<Rightarrow>
                   Inr \<lparr>dep_keys = keys, dep_address = address,
                        dep_redeem_script = redeem_script,
                        dep_files = qr_files ''address.png'' address
                                    @ qr_files ''redemption.png'' redeem_script\<rparr>)))"

section \<open>A node and a library for concrete runs\<close>

text \<open>
  Stand-ins for the collaborators, used where a statement is evaluated on a concrete
  run. The node refuses a multisig request unless \<open>1 \<le> m \<le> n\<close>, as Bitcoin Core
  does; every transaction it decodes has a virtual size of 250. The hash keeps the first
  four characters of its input, and the base-58 encoder is the identity. The two
  parsers know the few numerals that the runs below type.
\<close>

definition example_node :: node where
  "example_node =
     \<lparr>bitcoind_starts = True,
      getnetworkinfo_version = Some 220000,
      getaddressesbylabel = (\<lambda>label. Some [''addr-'' @ label]),
      addmultisigaddress_cli =
        (\<lambda>m addrs address_type.
           if 1 \<le> m \<and> m \<le> int (length addrs) then Some (''multisig-address'', ''redeem-script'')
           else None),
      createrawtransaction = (\<lambda>inputs outputs. Some ''0200''),
      signrawtransactionwithkey =
        (\<lambda>unsigned_hex keys inputs. Some \<lparr>stx_hex = ''0200ff'', stx_complete = True\<rparr>),
      decoderawtransaction_vsize = (\<lambda>hex. Some 250)\<rparr>"

definition example_lib :: lib where
  "example_lib =
     \<lparr>int_of_str = (\<lambda>s. if s = ''10'' then Some 10 else if s = ''10000'' then Some 10000
                         else if s = ''1600'' then Some 1600 else None),
      sha256 = take 4,
      b58encode_check = (\<lambda>hex. hex),
      wif_prefix = ''80'',
      decimal_of_str = (\<lambda>s. if s = ''1'' then Some (Decimal 1 0)
                             else if s = ''0.5'' then Some (Decimal 5 (- 1)) else None)\<rparr>"

text \<open>
  What the operator types for a deposit with two keys: six times yes to the checklist,
  then for each key 62 dice rolls and 40 hexadecimal characters.
\<close>

definition example_deposit_stdin :: "string list" where
  "example_deposit_stdin =
     [''y'', ''y'', ''y'', ''y'', ''y'', ''y'',
      ''12345 61234 56123 45612 34561 23456 12345 61234 56123 45612 34561 23456 12'',
      ''0123 4567 89ab cdef 0123 4567 89ab cdef 0123 4567'',
      ''65432 16543 21654 32165 43216 54321 65432 16543 21654 32165 43216 54321 65'',
      ''fedc ba98 7654 3210 fedc ba98 7654 3210 fedc ba98'']"

text \<open>
  A decoded transaction with a single output at the address \<^verbatim>\<open>src\<close>. The value is a
  float: one bitcoin is the float \<open>1\<close>, and 0.00390625 bitcoin, or 390625 satoshi, is
  the float \<open>1 / 2^8\<close>.
\<close>

definition example_tx :: "pyfloat \<Rightarrow> transaction" where
  "example_tx val =
     \<lparr>tx_txid = ''aa'',
      tx_vout = [\<lparr>out_n = 0, out_value = val,
                  out_scriptPubKey = \<lparr>spk_address = Some ''src'', spk_hex = ''a914''\<rparr>\<rparr>]\<rparr>"

section \<open>Facts about the Decimal model\<close>

lemma ndigits_le: "n < 10 ^ k \<Longrightarrow> 0 < k \<Longrightarrow> ndigits n \<le> k"
proof (induction k arbitrary: n)
  case 0
  then show ?case by simp
next
  case (Suc k)
  show ?case
  proof (cases "n < 10")
    case True
    then show ?thesis by (simp add: ndigits.simps)
  next
    case False
    with Suc.prems have k: "0 < k" by (cases k) auto
    from Suc.prems have "n div 10 < 10 ^ k" by (simp add: less_mult_imp_div_less mult.commute)
    with k Suc.IH have "ndigits (n div 10) \<le> k" by blast
    with False show ?thesis by (simp add: ndigits.simps)
  qed
qed

lemma ndigits_pos: "0 < ndigits n"
  by (subst ndigits.simps) simp

lemma ndigits_abs_le: "\<bar>c\<bar> < 10 ^ 28 \<Longrightarrow> ndigits (nat \<bar>c\<bar>) \<le> 28"
proof -
  assume "\<bar>c\<bar> < 10 ^ 28"
  then have "nat \<bar>c\<bar> < 10 ^ 28" by (simp add: nat_less_iff)
  then show ?thesis by (rule ndigits_le) simp
qed

lemma dec_fix_id: "ndigits (nat \<bar>c\<bar>) \<le> 28 \<Longrightarrow> dec_fix (Decimal c e) = Decimal c e"
  by (simp add: dec_fix_def prec_def)

lemma dec_fix_small: "\<bar>c\<bar> < 10 ^ 28 \<Longrightarrow> dec_fix (Decimal c e) = Decimal c e"
  by (rule dec_fix_id) (rule ndigits_abs_le)

lemma strip_zeros_inv:
  "strip_zeros q x i = (c, e) \<Longrightarrow> x \<le> e \<and> q = c * 10 ^ nat (e - x)"
proof (induction q x i rule: strip_zeros.induct)
  case (1 coeff exp ideal_exp)
  show ?case
  proof (cases "exp < ideal_exp \<and> coeff mod 10 = 0")
    case True
    with "1.prems" have "strip_zeros (coeff div 10) (exp + 1) ideal_exp = (c, e)"
      by (simp add: strip_zeros.simps [of coeff])
    with "1.IH" True have ih: "exp + 1 \<le> e" "coeff div 10 = c * 10 ^ nat (e - (exp + 1))"
      by auto
    from True have "coeff = (coeff div 10) * 10" by auto
    also have "\<dots> = c * 10 ^ Suc (nat (e - (exp + 1)))" using ih(2) by simp
    also have "Suc (nat (e - (exp + 1))) = nat (e - exp)" using ih(1) by simp
    finally show ?thesis using ih(1) by simp
  next
    case False
    with "1.prems" show ?thesis by (simp add: strip_zeros.simps [of coeff])
  qed
qed

lemma strip_zeros_upper:
  "strip_zeros q x i = (c, e) \<Longrightarrow> x \<le> i \<Longrightarrow> e \<le> i"
proof (induction q x i rule: strip_zeros.induct)
  case (1 coeff exp ideal_exp)
  show ?case
  proof (cases "exp < ideal_exp \<and> coeff mod 10 = 0")
    case True
    with "1.prems" have "strip_zeros (coeff div 10) (exp + 1) ideal_exp = (c, e)"
      by (simp add: strip_zeros.simps [of coeff])
    with "1.IH" True show ?thesis by simp
  next
    case False
    with "1.prems" show ?thesis by (auto simp add: strip_zeros.simps [of coeff])
  qed
qed

text \<open>
  Dividing a satoshi count \<open>n\<close> by \<open>10^8\<close> leaves the loop with \<open>n * 10^j\<close> at the
  exponent \<open>- 8 - j\<close>; it hands back \<open>n\<close> itself at an exponent from \<open>- 8\<close> to \<open>0\<close>.
\<close>

lemma strip_zeros_satoshi:
  assumes "strip_zeros (n * 10 ^ j) (- 8 - int j) 0 = (c, e)"
  shows "- 8 \<le> e \<and> e \<le> 0 \<and> c * 10 ^ nat (e + 8) = n"
  using assms
proof (induction j)
  case 0
  from strip_zeros_inv [of n "- 8" 0 c e] strip_zeros_upper [of n "- 8" 0 c e] 0
  show ?case by simp
next
  case (Suc j)
  have "strip_zeros (n * 10 ^ Suc j) (- 8 - int (Suc j)) 0 = strip_zeros (n * 10 ^ j) (- 8 - int j) 0"
    by (subst strip_zeros.simps) simp
  with Suc show ?case by simp
qed

lemma ndigits_pow8: "ndigits 100000000 = 9"
  by (simp add: ndigits.simps)

lemma pow_bound_cancel:
  fixes c :: nat
  assumes "c * 10 ^ j < 10 ^ 28" "j \<le> 8"
  shows "c < 10 ^ (28 - j)"
proof -
  have "28 = (28 - j) + j" using assms(2) by simp
  then have "(10::nat) ^ 28 = 10 ^ (28 - j) * 10 ^ j"
    by (metis power_add)
  with assms(1) have "c * 10 ^ j < 10 ^ (28 - j) * 10 ^ j" by (simp only:)
  then show ?thesis by (simp only: mult_less_cancel2)
qed

section \<open>Unit conversion is exact\<close>

lemma satoshi_to_btc_exact:
  assumes "\<bar>s\<bar> < 10 ^ 28"
  shows "satoshi_to_btc s = Inr (Decimal s (- 8))"
proof (cases "s = 0")
  case True
  then show ?thesis
    by (simp add: satoshi_to_btc_def dec_div_def quantize_def SATOSHI_PLACES_def dec_fix_def)
next
  case False
  define n where "n = nat \<bar>s\<bar>"
  have n: "0 < n" "n < 10 ^ 28" "int n = \<bar>s\<bar>"
    using False assms by (auto simp: n_def nat_less_iff)
  have dn: "ndigits n \<le> 28" using n(2) by (rule ndigits_le) simp
  define j where "j = 30 - ndigits n"
  have shift: "int (ndigits 100000000) - int (ndigits n) + int prec + 1 = int (j + 8)"
    using dn by (simp add: ndigits_pow8 prec_def j_def)
  obtain c e where ce: "strip_zeros (n * 10 ^ j) (- 8 - int j) 0 = (c, e)"
    by (cases "strip_zeros (n * 10 ^ j) (- 8 - int j) 0")
  from strip_zeros_satoshi [OF ce] have e: "- 8 \<le> e" "e \<le> 0" and cn: "c * 10 ^ nat (e + 8) = n"
    by auto
  have c0: "0 < c" using cn n(1) by (cases c) auto
  have "c * 10 ^ nat (e + 8) < 10 ^ 28" using cn n(2) by simp
  then have cb: "c < 10 ^ (28 - nat (e + 8))" using e by (intro pow_bound_cancel) auto
  have dc: "ndigits c \<le> 28 - nat (e + 8)" using cb e by (intro ndigits_le) auto
  have div: "dec_div (Decimal s 0) (Decimal 100000000 0) = Inr (Decimal (sgn s * int c) e)"
  proof -
    have q: "n * 10 ^ (j + 8) div 100000000 = n * 10 ^ j" "n * 10 ^ (j + 8) mod 100000000 = 0"
      by (simp_all add: power_add)
    have "- 8 - int j = - int j - 8" by simp
    with ce have ce': "strip_zeros (n * 10 ^ j) (- int j - 8) 0 = (c, e)" by (simp only:)
    have a: "nat \<bar>100000000::int\<bar> = 100000000" "nat \<bar>s\<bar> = n"
      by (simp_all add: n_def)
    have "ndigits (nat \<bar>sgn s * int c\<bar>) \<le> 28" using dc False by (simp add: abs_mult abs_sgn_eq)
    then have fx: "dec_fix (Decimal (sgn s * int c) e) = Decimal (sgn s * int c) e"
      by (rule dec_fix_id)
    have "dec_div (Decimal s 0) (Decimal 100000000 0) =
            Inr (dec_fix (Decimal (sgn s * sgn 100000000 * int (fst (c, e))) (snd (c, e))))"
      apply (simp only: dec_div_def Let_def decimal.sel a shift)
      using False q ce' apply (simp add: nat_add_distrib)
      done
    with fx show ?thesis by simp
  qed
  have quant: "quantize (Decimal (sgn s * int c) e) SATOSHI_PLACES = Inr (Decimal s (- 8))"
  proof -
    have abs: "nat \<bar>sgn s * int c\<bar> = c" using False by (simp add: abs_mult abs_sgn_eq)
    have "sgn s * int c * 10 ^ nat (e + 8) = sgn s * int (c * 10 ^ nat (e + 8))" by simp
    also have "\<dots> = s" using cn n(3) by (simp add: mult_sgn_abs)
    finally have val: "sgn s * int c * 10 ^ nat (e + 8) = s" .
    have ds: "ndigits (nat \<bar>s\<bar>) \<le> 28" using dn by (simp add: n_def)
    have "dec_fix (Decimal s (- 8)) = Decimal s (- 8)" using ds by (rule dec_fix_id)
    moreover have "int (ndigits c) + e \<le> 20" using dc e by linarith
    moreover have "sgn s \<noteq> 0" using False by (simp add: sgn_eq_0_iff)
    ultimately show ?thesis
      using False c0 e ds val abs
      by (simp add: quantize_def SATOSHI_PLACES_def dec_rescale_def prec_def Let_def)
  qed
  show ?thesis by (simp add: satoshi_to_btc_def div quant)
qed

lemma btc_to_satoshi_exact:
  assumes "\<bar>s\<bar> < 10 ^ 20"
  shows "btc_to_satoshi (Decimal s (- 8)) = s"
proof -
  have "\<bar>s * 100000000\<bar> < 10 ^ 28" using assms by (simp add: abs_mult)
  then have "dec_fix (Decimal (s * 100000000) (- 8)) = Decimal (s * 100000000) (- 8)"
    by (rule dec_fix_small)
  then show ?thesis
    by (simp add: btc_to_satoshi_def dec_mul_def dec_to_int_def abs_mult sgn_mult mult_sgn_abs)
qed

section \<open>Beyond the precision, the conversion raises\<close>

lemma ndigits_gt: "10 ^ k \<le> n \<Longrightarrow> k < ndigits n"
proof (induction k arbitrary: n)
  case 0
  then show ?case by (simp add: ndigits_pos)
next
  case (Suc k)
  then have "10 ^ k \<le> n div 10" by (simp add: less_eq_div_iff_mult_less_eq mult.commute)
  then have "k < ndigits (n div 10)" by (rule Suc.IH)
  moreover have "\<not> n < 10"
  proof
    assume "n < 10"
    moreover have "(10::nat) \<le> 10 ^ Suc k" by simp
    ultimately show False using Suc.prems by linarith
  qed
  ultimately show ?case by (subst ndigits.simps) simp
qed

lemma ndigits_upper: "n < 10 ^ ndigits n"
proof (rule ccontr)
  assume "\<not> n < 10 ^ ndigits n"
  then have "10 ^ ndigits n \<le> n" by simp
  then have "ndigits n < ndigits n" by (rule ndigits_gt)
  then show False by simp
qed

lemma ndigits_lower: "0 < n \<Longrightarrow> 10 ^ (ndigits n - 1) \<le> n"
proof (rule ccontr)
  assume n: "0 < n" and "\<not> 10 ^ (ndigits n - 1) \<le> n"
  then have lt: "n < 10 ^ (ndigits n - 1)" by simp
  show False
  proof (cases "ndigits n - 1")
    case 0
    with lt n show False by simp
  next
    case (Suc j)
    with lt have "ndigits n \<le> ndigits n - 1" by (intro ndigits_le) auto
    with Suc show False by simp
  qed
qed

lemma ndigits_mult_pow:
  assumes "10 ^ m \<le> c * 10 ^ j"
  shows "m < ndigits c + j"
proof (rule ccontr)
  assume "\<not> m < ndigits c + j"
  then have le: "ndigits c + j \<le> m" by simp
  have "c * 10 ^ j < 10 ^ ndigits c * 10 ^ j" using ndigits_upper [of c] by simp
  also have "\<dots> = 10 ^ (ndigits c + j)" by (simp add: power_add)
  also have "\<dots> \<le> 10 ^ m" using le by (intro power_increasing) auto
  finally show False using assms by simp
qed

lemma round_half_even_ge: "m div 10 ^ k \<le> round_half_even m k"
  by (simp add: round_half_even_def Let_def)

text \<open>Rounding to the precision keeps a number of at least \<open>10^20\<close> that large.\<close>

lemma dec_fix_large:
  assumes "c \<noteq> 0" and "21 \<le> int (ndigits (nat \<bar>c\<bar>)) + e"
  shows "coef (dec_fix (Decimal c e)) \<noteq> 0 \<and>
         21 \<le> int (ndigits (nat \<bar>coef (dec_fix (Decimal c e))\<bar>)) + expo (dec_fix (Decimal c e))"
proof (cases "ndigits (nat \<bar>c\<bar>) \<le> 28")
  case True
  then show ?thesis using assms by (simp add: dec_fix_def prec_def)
next
  case False
  define n where "n = nat \<bar>c\<bar>"
  define k where "k = ndigits n - 28"
  define q where "q = round_half_even n k"
  have n0: "0 < n" using assms(1) by (simp add: n_def)
  have d: "ndigits n = 28 + k" "0 < k" using False by (simp_all add: k_def n_def)
  have "10 ^ (ndigits n - 1) \<le> n" using n0 by (rule ndigits_lower)
  then have "10 ^ 27 * 10 ^ k \<le> n" using d by (simp add: power_add)
  then have "10 ^ 27 \<le> n div 10 ^ k" by (simp add: less_eq_div_iff_mult_less_eq)
  then have q27: "10 ^ 27 \<le> q" using round_half_even_ge [of n k] by (simp add: q_def)
  have sg: "\<bar>sgn c\<bar> = 1" "sgn c \<noteq> 0" using assms(1) by (simp_all add: abs_sgn_eq sgn_eq_0_iff)
  show ?thesis
  proof (cases "28 < ndigits q")
    case True
    have "\<not> q < 10 ^ 28"
    proof
      assume "q < 10 ^ 28"
      then have "ndigits q \<le> 28" by (rule ndigits_le) simp
      with True show False by simp
    qed
    then have "10 ^ 27 \<le> q div 10" by simp
    then have big: "27 < ndigits (q div 10)" "q div 10 \<noteq> 0" using ndigits_gt [of 27 "q div 10"] by auto
    have fx: "dec_fix (Decimal c e) = Decimal (sgn c * int (q div 10)) (e + int k + 1)"
      using False True d assms(1) by (simp add: dec_fix_def prec_def Let_def n_def [symmetric] k_def [symmetric] q_def [symmetric])
    show ?thesis
      using big sg assms(2) d by (simp add: fx abs_mult n_def [symmetric])
  next
    case nocarry: False
    have big: "27 < ndigits q" "q \<noteq> 0" using ndigits_gt [OF q27] q27 by auto
    have fx: "dec_fix (Decimal c e) = Decimal (sgn c * int q) (e + int k)"
      using False nocarry d assms(1) by (simp add: dec_fix_def prec_def Let_def n_def [symmetric] k_def [symmetric] q_def [symmetric])
    show ?thesis
      using big sg assms(2) d by (simp add: fx abs_mult n_def [symmetric])
  qed
qed


lemma pow10_split: "a + b = c \<Longrightarrow> (10::nat) ^ a * 10 ^ b = 10 ^ c"
  by (metis power_add)

text \<open>
  A count of \<open>10^28\<close> satoshi or more does not fit eight places in 28 digits: the
  quotient by \<open>10^8\<close> is at least \<open>10^20\<close>, and \<open>quantize\<close> raises.
\<close>

lemma dec_div_satoshi_large:
  assumes "10 ^ 28 \<le> \<bar>s\<bar>"
  shows "\<exists>c e. dec_div (Decimal s 0) (Decimal 100000000 0) = Inr (dec_fix (Decimal c e))
           \<and> c \<noteq> 0 \<and> 21 \<le> int (ndigits (nat \<bar>c\<bar>)) + e"
proof -
  define n where "n = nat \<bar>s\<bar>"
  define m where "m = nat \<bar>100000000 :: int\<bar>"
  define d where "d = ndigits n"
  define shift where "shift = int (ndigits m) - int (ndigits n) + int prec + 1"
  define num where "num = (if 0 \<le> shift then n * 10 ^ nat shift else n)"
  define den where "den = (if 0 \<le> shift then m else m * 10 ^ nat (- shift))"
  define q where "q = num div den"
  define r where "r = num mod den"
  define ce where "ce = (if r \<noteq> 0 then (if q mod 5 = 0 then q + 1 else q, 0 - 0 - shift)
                         else strip_zeros q (0 - 0 - shift) (0 - 0))"
  have m: "m = 100000000" by (simp add: m_def)
  have s0: "s \<noteq> 0" using assms by auto
  have nz: "(100000000 :: int) \<noteq> 0" by simp
  have n28: "10 ^ 28 \<le> n" using assms by (simp add: n_def le_nat_iff)
  have n0: "0 < n" using s0 by (simp add: n_def)
  have d29: "28 < d" unfolding d_def using n28 by (rule ndigits_gt)
  have sh: "shift = 38 - int d" by (simp add: shift_def m ndigits_pow8 prec_def d_def)
  have low: "10 ^ (d - 1) \<le> n" unfolding d_def using n0 by (rule ndigits_lower)
  have div: "dec_div (Decimal s 0) (Decimal 100000000 0)
               = Inr (dec_fix (Decimal (sgn s * sgn 100000000 * int (fst ce)) (snd ce)))"
    by (simp only: dec_div_def Let_def decimal.sel nz s0 if_False ce_def q_def r_def num_def
        den_def shift_def n_def m_def)
  have e8: "(100000000::nat) = 10 ^ 8" by simp
  have q29: "10 ^ 29 \<le> q"
  proof (cases "0 \<le> shift")
    case True
    then have dle: "d \<le> 38" using sh by simp
    have "nat shift = 38 - d" using sh dle by simp
    then have nd: "num = n * 10 ^ (38 - d)" "den = 10 ^ 8"
      using True by (simp_all add: num_def den_def m)
    have "(d - 1) + (38 - d) = 37" using dle d29 by simp
    then have "(10::nat) ^ (d - 1) * 10 ^ (38 - d) = 10 ^ 37" by (rule pow10_split)
    moreover have "10 ^ (d - 1) * 10 ^ (38 - d) \<le> n * 10 ^ (38 - d)"
      using low by (intro mult_right_mono) auto
    moreover have "(10::nat) ^ 29 * 10 ^ 8 = 10 ^ 37" by (rule pow10_split) simp
    ultimately have "10 ^ 29 * 10 ^ 8 \<le> num" by (simp only: nd)
    then show ?thesis unfolding q_def nd(2)
      by (simp only: less_eq_div_iff_mult_less_eq zero_less_power zero_less_numeral)
  next
    case False
    then have dge: "38 < d" using sh by simp
    have "nat (- shift) = d - 38" using sh dge by simp
    then have "den = 10 ^ 8 * 10 ^ (d - 38)" using False by (simp only: den_def m e8 if_False)
    moreover have "(10::nat) ^ 8 * 10 ^ (d - 38) = 10 ^ (d - 30)"
      using dge by (intro pow10_split) simp
    ultimately have den: "den = 10 ^ (d - 30)" by (simp only:)
    have num: "num = n" using False by (simp add: num_def)
    have "(10::nat) ^ 29 * 10 ^ (d - 30) = 10 ^ (d - 1)" using dge by (intro pow10_split) simp
    then have "10 ^ 29 * 10 ^ (d - 30) \<le> n" using low by (simp only:)
    then show ?thesis unfolding q_def num den
      by (simp only: less_eq_div_iff_mult_less_eq zero_less_power zero_less_numeral)
  qed
  have ce: "fst ce \<noteq> 0 \<and> 21 \<le> int (ndigits (fst ce)) + snd ce"
  proof (cases "r \<noteq> 0")
    case True
    then have c: "q \<le> fst ce" and e: "snd ce = - shift" by (simp_all add: ce_def)
    from q29 c have "10 ^ 29 \<le> fst ce" by simp
    then have "29 < ndigits (fst ce)" "fst ce \<noteq> 0" using ndigits_gt [of 29 "fst ce"] by auto
    then show ?thesis using e sh d29 by simp
  next
    case False
    obtain c e where st: "strip_zeros q (- shift) 0 = (c, e)"
      by (cases "strip_zeros q (- shift) 0")
    from strip_zeros_inv [OF st] have inv: "- shift \<le> e" "q = c * 10 ^ nat (e + shift)" by simp_all
    from q29 inv(2) have "29 < ndigits c + nat (e + shift)" by (intro ndigits_mult_pow) simp
    moreover have "c \<noteq> 0" using q29 inv(2) by (cases c) auto
    ultimately show ?thesis using False st inv(1) sh d29 by (simp add: ce_def)
  qed
  have "sgn s * sgn 100000000 * int (fst ce) \<noteq> 0" using s0 ce by (simp add: sgn_eq_0_iff)
  moreover have "nat \<bar>sgn s * sgn 100000000 * int (fst ce)\<bar> = fst ce"
    using s0 by (simp add: abs_mult abs_sgn_eq)
  ultimately show ?thesis using div ce by (intro exI [of _ "sgn s * sgn 100000000 * int (fst ce)"] exI [of _ "snd ce"]) simp
qed

lemma satoshi_to_btc_overflow:
  assumes "10 ^ 28 \<le> \<bar>s\<bar>"
  shows "satoshi_to_btc s = Inl InvalidOperation"
proof -
  from dec_div_satoshi_large [OF assms] obtain c e where
    div: "dec_div (Decimal s 0) (Decimal 100000000 0) = Inr (dec_fix (Decimal c e))"
    and c: "c \<noteq> 0" "21 \<le> int (ndigits (nat \<bar>c\<bar>)) + e"
    by blast
  from dec_fix_large [OF c]
  have "quantize (dec_fix (Decimal c e)) SATOSHI_PLACES = Inl InvalidOperation"
    by (simp add: quantize_def SATOSHI_PLACES_def prec_def)
  then show ?thesis by (simp add: satoshi_to_btc_def div)
qed

lemma satoshi_to_btc_cases:
  "satoshi_to_btc s = (if \<bar>s\<bar> < 10 ^ 28 then Inr (Decimal s (- 8)) else Inl InvalidOperation)"
  by (simp add: satoshi_to_btc_exact satoshi_to_btc_overflow)

text \<open>
  C10. For every satoshi amount \<open>s\<close> from 0 up to the supply bound of 21 million
  bitcoin (\<open>2.1 * 10^15\<close> satoshi), \<open>satoshi_to_btc\<close> returns the Decimal with
  coefficient \<open>s\<close> and eight places, and \<open>btc_to_satoshi\<close> turns that Decimal back into
  \<open>s\<close>: the round trip loses nothing.
\<close>

theorem satoshi_roundtrip:
  assumes "0 \<le> s" "s \<le> 2100000000000000"
  shows "satoshi_to_btc s = Inr (Decimal s (- 8)) \<and> btc_to_satoshi (Decimal s (- 8)) = s"
  using assms by (simp add: satoshi_to_btc_exact btc_to_satoshi_exact)

theorem satoshi_roundtrip_witness:
  "(0::int) \<le> 123456789 \<and> (123456789::int) \<le> 2100000000000000 \<and>
   satoshi_to_btc 123456789 = Inr (Decimal 123456789 (- 8)) \<and>
   btc_to_satoshi (Decimal 123456789 (- 8)) = 123456789"
  using satoshi_roundtrip [of 123456789] by simp

section \<open>Selecting unspent outputs\<close>

lemma get_utxos_loop_filter:
  "get_utxos_loop address outputs utxos =
     utxos @ filter (\<lambda>output. spk_address (out_scriptPubKey output) = Some address) outputs"
  by (induction outputs arbitrary: utxos) (auto split: option.splits)

text \<open>
  C7. For every decoded transaction and every address, \<open>get_utxos\<close> returns exactly the
  outputs whose locking script has an address field equal to the address, in the order of
  the transaction. An output without the field is passed over; the function has no
  failure, and the list is empty when nothing matches.
\<close>

theorem get_utxos_selects:
  "get_utxos tx address =
     filter (\<lambda>output. spk_address (out_scriptPubKey output) = Some address) (tx_vout tx)"
  by (simp add: get_utxos_def get_utxos_loop_filter)

section \<open>Pruning the destinations\<close>

lemma od_set_fresh: "k \<notin> fst ` set d \<Longrightarrow> od_set k v d = d @ [(k, v)]"
  by (induction d) auto

lemma foldl_od_set_distinct:
  "distinct (map fst (d @ pairs)) \<Longrightarrow> foldl (\<lambda>d p. od_set (fst p) (snd p) d) d pairs = d @ pairs"
proof (induction pairs arbitrary: d)
  case Nil
  then show ?case by simp
next
  case (Cons p pairs)
  from Cons.prems have fresh: "fst p \<notin> fst ` set d" by auto
  from Cons.prems have "distinct (map fst ((d @ [p]) @ pairs))" by simp
  from Cons.IH [OF this] fresh show ?case by (simp add: od_set_fresh)
qed

lemma ordered_dict_distinct: "distinct (map fst pairs) \<Longrightarrow> ordered_dict pairs = pairs"
  using foldl_od_set_distinct [of "[]" pairs] by (simp add: ordered_dict_def)

lemma items_not_zero_string_filter:
  "items_not_zero_string dests = filter (\<lambda>item. snd item \<noteq> StrVal ''0'') dests"
  by (induction dests rule: items_not_zero_string.induct) auto

text \<open>
  C4, as the code has it. The destinations are a dictionary, so their keys are distinct.
  The mapping handed to \<^verbatim>\<open>createrawtransaction\<close> is the given one without the
  entries whose amount is the string \<^verbatim>\<open>'0'\<close>; every other entry stays, in its place.
\<close>

theorem pruned_destinations:
  assumes "distinct (map fst dests)"
  shows "snd (createrawtransaction_args source_address dests input_txs) =
           filter (\<lambda>item. snd item \<noteq> StrVal ''0'') dests"
proof -
  have "distinct (map fst (filter (\<lambda>item. snd item \<noteq> StrVal ''0'') dests))"
    using assms by (simp add: distinct_map_filter)
  then show ?thesis
    by (simp add: createrawtransaction_args_def items_not_zero_string_filter ordered_dict_distinct)
qed

theorem pruned_destinations_witness:
  "distinct (map fst [(''src'', StrVal ''0''), (''dst'', StrVal ''0.99990000'')]) \<and>
   snd (createrawtransaction_args ''src''
          [(''src'', StrVal ''0''), (''dst'', StrVal ''0.99990000'')] [])
     = [(''dst'', StrVal ''0.99990000'')]"
  using pruned_destinations
    [of "[(''src'', StrVal ''0''), (''dst'', StrVal ''0.99990000'')]" "''src''" "[]"]
  by simp

text \<open>
  C4 as stated fails. The mapping that fee negotiation passes holds the integer 0 for
  both addresses, and both entries reach the node; so does a zero amount written
  \<^verbatim>\<open>'0E-8'\<close>, which is how a withdrawal of zero is rendered.
\<close>

theorem zero_amounts_kept:
  "snd (createrawtransaction_args ''src'' (initial_addresses ''src'' ''dst'') [])
     = [(''src'', IntVal 0), (''dst'', IntVal 0)] \<and>
   snd (createrawtransaction_args ''src''
          [(''src'', StrVal ''0.99990000''), (''dst'', StrVal (dec_str (Decimal 0 (- 8))))] [])
     = [(''src'', StrVal ''0.99990000''), (''dst'', StrVal ''0E-8'')]"
  by (simp add: createrawtransaction_args_def initial_addresses_def ordered_dict_def
      dec_str_def str_nat.simps)

section \<open>Combining entropy\<close>

lemma hex_digit_value_less: "hex_digit_value c = Some v \<Longrightarrow> v < 16"
  by (auto simp: hex_digit_value_def split: if_splits)

lemma int_base16_from_bounds:
  assumes "list_all (\<lambda>c. hex_digit_value c \<noteq> None) s" "0 \<le> acc" "acc < 16 ^ j"
  shows "\<exists>v. int_base16_from acc s = Inr v \<and> 0 \<le> v \<and> v < 16 ^ (j + length s)"
  using assms
proof (induction s arbitrary: acc j)
  case Nil
  then show ?case by simp
next
  case (Cons c cs)
  then obtain d where d: "hex_digit_value c = Some d" by auto
  then have d16: "d < 16" by (rule hex_digit_value_less)
  have "acc + 1 \<le> 16 ^ j" using Cons.prems(3) by simp
  then have "(acc + 1) * 16 \<le> 16 ^ j * 16" by (simp only: mult_right_mono)
  then have ub: "acc * 16 + int d < 16 ^ Suc j" using d16 by (simp add: algebra_simps)
  have lb: "0 \<le> acc * 16 + int d" using Cons.prems(2) by simp
  from Cons.prems(1) have "list_all (\<lambda>c. hex_digit_value c \<noteq> None) cs" by simp
  from Cons.IH [OF this lb ub] d show ?case by simp
qed

lemma int_base16_bounds:
  assumes "hex_string s"
  shows "\<exists>v. int_base16 s = Inr v \<and> 0 \<le> v \<and> v < 16 ^ length s"
  using assms int_base16_from_bounds [of s 0 0] by (simp add: hex_string_def int_base16_def)

lemma hex_nat_length: "n < 16 ^ k \<Longrightarrow> 0 < k \<Longrightarrow> length (hex_nat n) \<le> k"
proof (induction k arbitrary: n)
  case 0
  then show ?case by simp
next
  case (Suc k)
  show ?case
  proof (cases "n < 16")
    case True
    then show ?thesis by (simp add: hex_nat.simps)
  next
    case False
    with Suc.prems have k: "0 < k" by (cases k) auto
    from Suc.prems have "n div 16 < 16 ^ k" by (simp add: less_mult_imp_div_less mult.commute)
    with k Suc.IH have "length (hex_nat (n div 16)) \<le> k" by blast
    with False show ?thesis by (simp add: hex_nat.simps)
  qed
qed

lemma format_0x_length:
  assumes "0 \<le> x" "x < 16 ^ k" "0 < k"
  shows "length (format_0x x k) = k"
proof -
  have "nat \<bar>x\<bar> < 16 ^ k" using assms(1,2) by (simp add: nat_less_iff)
  then have "length (hex_nat (nat \<bar>x\<bar>)) \<le> k" using assms(3) by (rule hex_nat_length)
  then show ?thesis using assms(1) by (simp add: format_0x_def Let_def)
qed

lemma format_0x_zero: "0 < k \<Longrightarrow> format_0x 0 k = replicate k (CHR ''0'')"
  by (cases k) (simp_all add: format_0x_def hex_nat.simps replicate_append_same)

lemma xor_bound16:
  fixes x y :: int
  assumes "0 \<le> x" "x < 16 ^ k" "0 \<le> y" "y < 16 ^ k"
  shows "0 \<le> x XOR y \<and> x XOR y < 16 ^ k"
proof -
  have p: "(16::int) ^ k = 2 ^ (4 * k)" by (simp add: power_mult)
  from assms show ?thesis unfolding p by (simp add: XOR_upper)
qed

text \<open>
  C5. For valid hex-digit strings \<open>a\<close> and \<open>b\<close> of one length, \<open>xor_hex_strings\<close>
  returns the same string for \<open>(a, b)\<close> and for \<open>(b, a)\<close>, as long as the inputs; and the
  XOR of a string with itself is the string of that many zeros.
\<close>

theorem xor_hex_strings_commutes:
  assumes "hex_string a" "hex_string b" "length a = length b"
  shows "(\<exists>r. xor_hex_strings a b = Inr r \<and> xor_hex_strings b a = Inr r \<and> length r = length a)
    \<and> xor_hex_strings a a = Inr (replicate (length a) (CHR ''0''))"
proof -
  from int_base16_bounds [OF assms(1)] obtain x
    where x: "int_base16 a = Inr x" "0 \<le> x" "x < 16 ^ length a" by blast
  from int_base16_bounds [OF assms(2)] assms(3) obtain y
    where y: "int_base16 b = Inr y" "0 \<le> y" "y < 16 ^ length a" by auto
  have k: "0 < length a" using assms(1) by (simp add: hex_string_def)
  from xor_bound16 [OF x(2,3) y(2,3)] have "length (format_0x (x XOR y) (length a)) = length a"
    using k by (intro format_0x_length) auto
  then have "\<exists>r. xor_hex_strings a b = Inr r \<and> xor_hex_strings b a = Inr r \<and> length r = length a"
    using x(1) y(1) assms(3) by (simp add: xor_hex_strings_def xor.commute)
  moreover have "xor_hex_strings a a = Inr (replicate (length a) (CHR ''0''))"
    using x(1) k by (simp add: xor_hex_strings_def format_0x_zero)
  ultimately show ?thesis by simp
qed

theorem xor_hex_strings_commutes_witness:
  "hex_string ''00ff'' \<and> hex_string ''0f0F'' \<and> length ''00ff'' = length ''0f0F'' \<and>
   xor_hex_strings ''00ff'' ''0f0F'' = Inr ''0ff0'' \<and>
   xor_hex_strings ''0f0F'' ''00ff'' = Inr ''0ff0'' \<and>
   xor_hex_strings ''00ff'' ''00ff'' = Inr ''0000''"
  using xor_hex_strings_commutes [of "''00ff''" "''0f0F''"]
  by (simp add: hex_string_def hex_digit_value_def xor_hex_strings_def int_base16_def
      format_0x_def hex_nat.simps)

section \<open>Decimal arithmetic on satoshi amounts\<close>

text \<open>
  An amount of \<open>c\<close> satoshi is \<open>Decimal c (- 8)\<close>. Below \<open>10^28\<close> satoshi the context
  never rounds, and sums and differences are those of the coefficients.
\<close>

lemma dec_less_satoshi [simp]: "dec_less (Decimal a (- 8)) (Decimal b (- 8)) = (a < b)"
  by (simp add: dec_less_def)

lemma dec_add_satoshi:
  assumes "\<bar>a\<bar> < 10 ^ 28" "\<bar>b\<bar> < 10 ^ 28" "\<bar>a + b\<bar> < 10 ^ 28"
  shows "dec_add (Decimal a (- 8)) (Decimal b (- 8)) = Decimal (a + b) (- 8)"
proof -
  have fx: "dec_fix (Decimal (a + b) (- 8)) = Decimal (a + b) (- 8)"
    using assms(3) by (rule dec_fix_small)
  have f0: "dec_fix (Decimal 0 (- 8)) = Decimal 0 (- 8)" by (simp add: dec_fix_def)
  show ?thesis
  proof (cases "a = 0 \<or> b = 0")
    case True
    then show ?thesis using fx f0
      by (auto simp add: dec_add_def dec_rescale_def prec_def)
  next
    case False
    have "normalize_ops (Decimal a (- 8)) (Decimal b (- 8)) = (Decimal a (- 8), Decimal b (- 8))"
      using ndigits_pos [of "nat \<bar>b\<bar>"] by (simp add: normalize_ops_def Let_def min_def)
    then show ?thesis using False fx f0 by (simp add: dec_add_def Let_def)
  qed
qed

lemma dec_sub_satoshi:
  assumes "\<bar>a\<bar> < 10 ^ 28" "\<bar>b\<bar> < 10 ^ 28" "\<bar>a - b\<bar> < 10 ^ 28"
  shows "dec_sub (Decimal a (- 8)) (Decimal b (- 8)) = Decimal (a - b) (- 8)"
  using dec_add_satoshi [of a "- b"] assms by (simp add: dec_sub_def dec_neg_def)

lemma quantize_satoshi:
  assumes "\<bar>w\<bar> < 10 ^ 28"
  shows "quantize (Decimal w (- 8)) SATOSHI_PLACES = Inr (Decimal w (- 8))"
proof -
  have "ndigits (nat \<bar>w\<bar>) \<le> 28" using assms by (rule ndigits_abs_le)
  moreover have "dec_fix (Decimal w (- 8)) = Decimal w (- 8)" using assms by (rule dec_fix_small)
  moreover have "dec_fix (Decimal 0 (- 8)) = Decimal 0 (- 8)" by (simp add: dec_fix_def)
  ultimately show ?thesis
    by (simp add: quantize_def SATOSHI_PLACES_def dec_rescale_def prec_def)
qed

text \<open>
  The float \<^verbatim>\<open>1e-8\<close> lies strictly between one and two satoshi, so the test
  \<^verbatim>\<open>change_amount < 1e-8\<close> holds for a change of one satoshi as well as for none.
\<close>

lemma floor_change_satoshi:
  "floor_change (Decimal c (- 8)) = (if c \<le> 1 then PyInt 0 else PyDec (Decimal c (- 8)))"
proof (cases "c \<le> 1")
  case True
  then have "c * 10 ^ 70 \<le> 1 * 10 ^ 70" by (simp only: mult_right_mono zero_le_power zero_le_numeral)
  then show ?thesis using True
    by (simp add: floor_change_def float_1e_8_def dec_less_def)
next
  case False
  then have "2 * 10 ^ 70 \<le> c * 10 ^ 70" by (intro mult_right_mono) auto
  then show ?thesis using False
    by (simp add: floor_change_def float_1e_8_def dec_less_def)
qed

section \<open>Withdrawal: the checks and the change\<close>

lemma withdraw_amounts_entered:
  assumes "\<bar>i\<bar> < 10 ^ 27" "\<bar>f\<bar> < 10 ^ 27" "\<bar>w\<bar> < 10 ^ 27"
    and q: "quantize amount SATOSHI_PLACES = Inr (Decimal w (- 8))"
  shows "withdraw_amounts (Decimal i (- 8)) (Decimal f (- 8)) (Some amount) =
           (if i < f then Inl SystemExit
            else if i < f + w then Inl (Exception ''Output values greater than input value'')
            else Inr (Decimal w (- 8), Decimal (i - w - f) (- 8)))"
proof -
  have a: "dec_add (Decimal f (- 8)) (Decimal w (- 8)) = Decimal (f + w) (- 8)"
    using assms by (intro dec_add_satoshi) auto
  have s1: "dec_sub (Decimal i (- 8)) (Decimal w (- 8)) = Decimal (i - w) (- 8)"
    using assms by (intro dec_sub_satoshi) auto
  have s2: "dec_sub (Decimal (i - w) (- 8)) (Decimal f (- 8)) = Decimal (i - w - f) (- 8)"
    using assms by (intro dec_sub_satoshi) auto
  show ?thesis by (simp add: withdraw_amounts_def q a s1 s2)
qed

text \<open>Amounts as the operator may type them, rounded to eight places.\<close>

lemma quantize_examples:
  "quantize (Decimal 5 (- 1)) SATOSHI_PLACES = Inr (Decimal 50000000 (- 8))"
  "quantize (Decimal 99989999 (- 8)) SATOSHI_PLACES = Inr (Decimal 99989999 (- 8))"
  "quantize (Decimal 99990001 (- 8)) SATOSHI_PLACES = Inr (Decimal 99990001 (- 8))"
  "quantize (Decimal 1 (- 8)) SATOSHI_PLACES = Inr (Decimal 1 (- 8))"
  by (simp_all add: quantize_def SATOSHI_PLACES_def dec_rescale_def dec_fix_def prec_def
      ndigits.simps)

lemma withdraw_amounts_blank:
  assumes "\<bar>i\<bar> < 10 ^ 27" "\<bar>f\<bar> < 10 ^ 27"
  shows "withdraw_amounts (Decimal i (- 8)) (Decimal f (- 8)) None =
           (if i < f then Inl SystemExit else Inr (Decimal (i - f) (- 8), Decimal 0 (- 8)))"
proof -
  have s0: "dec_sub (Decimal i (- 8)) (Decimal f (- 8)) = Decimal (i - f) (- 8)"
    using assms by (intro dec_sub_satoshi) auto
  have a: "dec_add (Decimal f (- 8)) (Decimal (i - f) (- 8)) = Decimal (f + (i - f)) (- 8)"
    using assms by (intro dec_add_satoshi) auto
  have s1: "dec_sub (Decimal i (- 8)) (Decimal (i - f) (- 8)) = Decimal (i - (i - f)) (- 8)"
    using assms by (intro dec_sub_satoshi) auto
  have s2: "dec_sub (Decimal f (- 8)) (Decimal f (- 8)) = Decimal (f - f) (- 8)"
    using assms by (intro dec_sub_satoshi) auto
  show ?thesis using s2 by (simp add: withdraw_amounts_def s0 a s1)
qed

lemma withdraw_amounts_examples:
  "withdraw_amounts (Decimal 100000000 (- 8)) (Decimal 10000 (- 8)) (Some (Decimal 99989999 (- 8)))
     = Inr (Decimal 99989999 (- 8), Decimal 1 (- 8))"
  "withdraw_amounts (Decimal 100000000 (- 8)) (Decimal 10000 (- 8)) (Some (Decimal 5 (- 1)))
     = Inr (Decimal 50000000 (- 8), Decimal 49990000 (- 8))"
  using withdraw_amounts_entered [OF _ _ _ quantize_examples(2), of 100000000 10000]
    withdraw_amounts_entered [OF _ _ _ quantize_examples(1), of 100000000 10000]
  by simp_all

text \<open>
  C3, at the input where the code departs from it: a change of exactly one satoshi is
  replaced by the integer 0, while a change of two satoshi is kept. With an input of
  1.00000000, a fee of 0.00010000 and a withdrawal of 0.99989999 the change computed
  is one satoshi.
\<close>

theorem one_satoshi_change_floored:
  "floor_change (Decimal 1 (- 8)) = PyInt 0 \<and>
   floor_change (Decimal 2 (- 8)) = PyDec (Decimal 2 (- 8)) \<and>
   withdraw_amounts (Decimal 100000000 (- 8)) (Decimal 10000 (- 8)) (Some (Decimal 99989999 (- 8)))
     = Inr (Decimal 99989999 (- 8), Decimal 1 (- 8))"
  by (simp add: floor_change_satoshi withdraw_amounts_examples)

section \<open>Withdrawal: conservation of value\<close>

lemma initial_addresses_two:
  "source_address \<noteq> dest_address \<Longrightarrow>
   od_set source_address a (od_set dest_address b (initial_addresses source_address dest_address))
     = [(source_address, a), (dest_address, b)]"
  by (simp add: initial_addresses_def)

text \<open>
  C1 as stated fails. With an input of 1.00000000, a fee of 0.00010000 and a withdrawal
  of 0.99989999 the plan is accepted with the outputs \<^verbatim>\<open>'0'\<close> and
  \<^verbatim>\<open>'0.99989999'\<close>: outputs and fee add up to one satoshi less than the input, and
  nothing is raised. With a withdrawal of 0.5 to the source address itself the plan is
  accepted with the single output \<^verbatim>\<open>'0.49990000'\<close>.
\<close>

theorem value_not_conserved:
  "withdraw_finalize ''src'' ''dst'' (Decimal 100000000 (- 8)) (Decimal 10000 (- 8))
       (Some (Decimal 99989999 (- 8)))
     = Inr \<lparr>plan_withdrawal_amount = Decimal 99989999 (- 8), plan_change_amount = PyInt 0,
            plan_addresses = [(''src'', StrVal ''0''), (''dst'', StrVal ''0.99989999'')]\<rparr> \<and>
   btc_to_satoshi (Decimal 100000000 (- 8)) \<noteq>
     pynum_to_satoshi (PyInt 0) + btc_to_satoshi (Decimal 99989999 (- 8))
       + btc_to_satoshi (Decimal 10000 (- 8)) \<and>
   withdraw_finalize ''src'' ''src'' (Decimal 100000000 (- 8)) (Decimal 10000 (- 8))
       (Some (Decimal 5 (- 1)))
     = Inr \<lparr>plan_withdrawal_amount = Decimal 50000000 (- 8),
            plan_change_amount = PyDec (Decimal 49990000 (- 8)),
            plan_addresses = [(''src'', StrVal ''0.49990000'')]\<rparr>"
  by (simp add: withdraw_finalize_def withdraw_amounts_examples
      floor_change_satoshi initial_addresses_def btc_to_satoshi_exact dec_str_def
      str_nat.simps str_int_def)

text \<open>
  C1, as the code has it. Amounts are in satoshi and below \<open>10^19\<close> in magnitude; the
  destination is not the source address; the entry is blank, or an amount that, rounded
  to eight places, does not leave a change of exactly one satoshi. Then every plan that
  is accepted holds exactly two outputs, the change for the source and the withdrawal
  for the destination, and the input equals the outputs plus the fee, counted in
  satoshi. The plan is accepted only when the fee and the withdrawal together do not
  exceed the input; no other comparison is made.
\<close>

theorem withdraw_conserves_value:
  assumes "\<bar>i\<bar> < 10 ^ 19" "\<bar>f\<bar> < 10 ^ 19"
    and "entry = None \<or>
         (\<exists>amount w. entry = Some amount \<and> quantize amount SATOSHI_PLACES = Inr (Decimal w (- 8))
                      \<and> \<bar>w\<bar> < 10 ^ 19 \<and> i - w - f \<noteq> 1)"
    and "source_address \<noteq> dest_address"
    and "withdraw_finalize source_address dest_address (Decimal i (- 8)) (Decimal f (- 8)) entry
           = Inr plan"
  shows "plan_addresses plan =
           [(source_address, StrVal (py_str (plan_change_amount plan))),
            (dest_address, StrVal (dec_str (plan_withdrawal_amount plan)))]
       \<and> btc_to_satoshi (Decimal i (- 8)) =
           pynum_to_satoshi (plan_change_amount plan)
             + btc_to_satoshi (plan_withdrawal_amount plan) + btc_to_satoshi (Decimal f (- 8))
       \<and> btc_to_satoshi (Decimal f (- 8)) + btc_to_satoshi (plan_withdrawal_amount plan)
           \<le> btc_to_satoshi (Decimal i (- 8))"
proof -
  have bi: "\<bar>i\<bar> < 10 ^ 27" "\<bar>f\<bar> < 10 ^ 27" "\<bar>i\<bar> < 10 ^ 20" "\<bar>f\<bar> < 10 ^ 20"
    using assms(1,2) by auto
  from assms(3) show ?thesis
  proof
    assume blank: "entry = None"
    have "\<bar>i - f\<bar> < 10 ^ 20" using assms(1,2) by auto
    then have "btc_to_satoshi (Decimal (i - f) (- 8)) = i - f" by (rule btc_to_satoshi_exact)
    then show ?thesis
      using assms(4,5) blank bi
      by (auto simp add: withdraw_finalize_def withdraw_amounts_blank initial_addresses_two
          floor_change_satoshi btc_to_satoshi_exact split: if_splits)
  next
    assume "\<exists>amount w. entry = Some amount \<and> quantize amount SATOSHI_PLACES = Inr (Decimal w (- 8))
                      \<and> \<bar>w\<bar> < 10 ^ 19 \<and> i - w - f \<noteq> 1"
    then obtain amount w where w: "entry = Some amount"
        "quantize amount SATOSHI_PLACES = Inr (Decimal w (- 8))" "\<bar>w\<bar> < 10 ^ 19" "i - w - f \<noteq> 1"
      by blast
    have bw: "\<bar>w\<bar> < 10 ^ 27" "\<bar>w\<bar> < 10 ^ 20" using w(3) by auto
    have "\<bar>i - w - f\<bar> < 10 ^ 20" using assms(1,2) w(3) by auto
    then have c: "btc_to_satoshi (Decimal (i - w - f) (- 8)) = i - w - f"
      by (rule btc_to_satoshi_exact)
    have amounts: "withdraw_amounts (Decimal i (- 8)) (Decimal f (- 8)) entry =
           (if i < f then Inl SystemExit
            else if i < f + w then Inl (Exception ''Output values greater than input value'')
            else Inr (Decimal w (- 8), Decimal (i - w - f) (- 8)))"
      unfolding w(1) using bi(1,2) bw(1) w(2) by (rule withdraw_amounts_entered)
    show ?thesis
      using assms(4,5) w(4) bi bw c
      by (auto simp add: withdraw_finalize_def amounts initial_addresses_two
          floor_change_satoshi btc_to_satoshi_exact split: if_splits)
  qed
qed

theorem withdraw_conserves_value_witness:
  "withdraw_finalize ''src'' ''dst'' (Decimal 100000000 (- 8)) (Decimal 10000 (- 8))
       (Some (Decimal 5 (- 1)))
     = Inr \<lparr>plan_withdrawal_amount = Decimal 50000000 (- 8),
            plan_change_amount = PyDec (Decimal 49990000 (- 8)),
            plan_addresses = [(''src'', StrVal ''0.49990000''), (''dst'', StrVal ''0.50000000'')]\<rparr> \<and>
   btc_to_satoshi (Decimal 100000000 (- 8)) =
     pynum_to_satoshi (PyDec (Decimal 49990000 (- 8))) + btc_to_satoshi (Decimal 50000000 (- 8))
       + btc_to_satoshi (Decimal 10000 (- 8)) \<and>
   btc_to_satoshi (Decimal 10000 (- 8)) + btc_to_satoshi (Decimal 50000000 (- 8))
     \<le> btc_to_satoshi (Decimal 100000000 (- 8))"
proof -
  have plan: "withdraw_finalize ''src'' ''dst'' (Decimal 100000000 (- 8)) (Decimal 10000 (- 8))
       (Some (Decimal 5 (- 1)))
     = Inr \<lparr>plan_withdrawal_amount = Decimal 50000000 (- 8),
            plan_change_amount = PyDec (Decimal 49990000 (- 8)),
            plan_addresses = [(''src'', StrVal ''0.49990000''), (''dst'', StrVal ''0.50000000'')]\<rparr>"
    by (simp add: withdraw_finalize_def withdraw_amounts_examples
        floor_change_satoshi initial_addresses_def dec_str_def str_nat.simps)
  have entry: "Some (Decimal 5 (- 1)) = None \<or>
         (\<exists>amount w. Some (Decimal 5 (- 1)) = Some amount
            \<and> quantize amount SATOSHI_PLACES = Inr (Decimal w (- 8))
            \<and> \<bar>w\<bar> < 10 ^ 19 \<and> 100000000 - w - 10000 \<noteq> 1)"
    using quantize_examples(1) by auto
  from withdraw_conserves_value [OF _ _ entry _ plan] plan show ?thesis by simp
qed

section \<open>The fee ceiling\<close>

text \<open>
  The float \<^verbatim>\<open>.005\<close> lies strictly between 500000 and 500001 satoshi.
\<close>

lemma dec_less_max_fee: "dec_less (from_float MAX_FEE) (Decimal c (- 8)) = (500000 < c)"
proof (cases "500000 < c")
  case True
  then have "500001 * 10 ^ 52 \<le> c * 10 ^ 52" by (intro mult_right_mono) auto
  then show ?thesis using True by (simp add: MAX_FEE_def dec_less_def)
next
  case False
  then have "c * 10 ^ 52 \<le> 500000 * 10 ^ 52" by (intro mult_right_mono) auto
  then show ?thesis using False by (simp add: MAX_FEE_def dec_less_def)
qed

text \<open>
  C6. One pass of the fee loop in which the node builds, signs and decodes the
  placeholder transaction, reports the virtual size \<open>vsize\<close>, and a fee is computed
  from the operator's rate. The fee is the product of size and rate in satoshi, written
  with eight places. Above 500000 satoshi, which is 0.005 bitcoin, the loop goes back to
  read a new rate from the next line and asks for no confirmation; at or below it the
  fee is put to the operator, returned on yes, and on no the loop starts over.
\<close>

theorem fee_ceiling:
  assumes "bitcoind_starts nd"
    and "int_of_str l line = Some rate"
    and "create_unsigned_transaction nd source_address dests redeem_script input_txs = Inr unsigned_tx"
    and "sign_transaction nd source_address keys redeem_script unsigned_tx input_txs = Inr signed"
    and "decoderawtransaction_vsize nd (stx_hex signed) = Some vsize"
    and "computed_fee nd source_address keys dests redeem_script input_txs rate = Inr fee"
  shows "fee = Decimal (vsize * rate) (- 8)
       \<and> get_fee_interactive l nd source_address keys dests redeem_script input_txs (line # rest) =
           (if 500000 < vsize * rate
            then get_fee_interactive l nd source_address keys dests redeem_script input_txs rest
            else case yes_no_interactive rest of
                   Inl e \<Rightarrow> Inl e
                 | Inr (confirm, rest') \<Rightarrow>
                     if confirm then Inr (fee, rest')
                     else get_fee_interactive l nd source_address keys dests redeem_script
                            input_txs rest')"
proof -
  have "satoshi_to_btc (vsize * rate) = Inr fee"
    using assms(3-6) by (simp add: computed_fee_def)
  then have fee: "fee = Decimal (vsize * rate) (- 8)"
    by (simp add: satoshi_to_btc_cases split: if_splits)
  show ?thesis
    using assms(1,2) assms(6) [unfolded fee] unfolding fee
    by (simp add: get_fee_interactive.simps dec_less_max_fee)
qed

theorem fee_ceiling_witness:
  "get_fee_interactive example_lib example_node ''src'' [''key''] (initial_addresses ''src'' ''dst'')
       ''script'' [] [''10000'', ''10'', ''y'']
     = Inr (Decimal 2500 (- 8), [])"
proof -
  have ex: "bitcoind_starts example_node"
    "create_unsigned_transaction example_node ''src'' (initial_addresses ''src'' ''dst'') ''script'' []
       = Inr ''0200''"
    "sign_transaction example_node ''src'' [''key''] ''script'' ''0200'' []
       = Inr \<lparr>stx_hex = ''0200ff'', stx_complete = True\<rparr>"
    "decoderawtransaction_vsize example_node (stx_hex \<lparr>stx_hex = ''0200ff'', stx_complete = True\<rparr>)
       = Some 250"
    by (simp_all add: example_node_def create_unsigned_transaction_def sign_transaction_def)
  have hi: "int_of_str example_lib ''10000'' = Some 10000"
    and lo: "int_of_str example_lib ''10'' = Some 10"
    by (simp_all add: example_lib_def)
  have fee_hi: "computed_fee example_node ''src'' [''key''] (initial_addresses ''src'' ''dst'')
                  ''script'' [] 10000 = Inr (Decimal 2500000 (- 8))"
    and fee_lo: "computed_fee example_node ''src'' [''key''] (initial_addresses ''src'' ''dst'')
                  ''script'' [] 10 = Inr (Decimal 2500 (- 8))"
    using ex(4) by (simp_all add: computed_fee_def ex(2,3) satoshi_to_btc_exact)
  have yes: "upper ''y'' = ''Y''"
    by (simp add: upper_def upper_char_def)
  have first: "get_fee_interactive example_lib example_node ''src'' [''key'']
        (initial_addresses ''src'' ''dst'') ''script'' [] [''10000'', ''10'', ''y'']
      = get_fee_interactive example_lib example_node ''src'' [''key'']
        (initial_addresses ''src'' ''dst'') ''script'' [] [''10'', ''y'']"
    using fee_ceiling [OF ex(1) hi ex(2,3,4) fee_hi, of "[''10'', ''y'']"] by simp
  have second: "get_fee_interactive example_lib example_node ''src'' [''key'']
        (initial_addresses ''src'' ''dst'') ''script'' [] [''10'', ''y'']
      = Inr (Decimal 2500 (- 8), [])"
    using fee_ceiling [OF ex(1) lo ex(2,3,4) fee_lo, of "[''y'']"] by (simp add: yes)
  show ?thesis by (simp only: first second)
qed

section \<open>Withdrawal: the fee comes first\<close>

text \<open>
  A fee is only ever returned after the node has built and signed the transaction that
  sizes it.
\<close>

lemma get_fee_interactive_built:
  "get_fee_interactive l nd source_address keys dests redeem_script input_txs stdin = Inr (fee, rest)
   \<Longrightarrow> \<exists>unsigned_tx. create_unsigned_transaction nd source_address dests redeem_script input_txs
                        = Inr unsigned_tx
         \<and> (\<exists>signed. sign_transaction nd source_address keys redeem_script unsigned_tx input_txs
                        = Inr signed)"
proof (induction l nd source_address keys dests redeem_script input_txs stdin
    rule: get_fee_interactive.induct)
  case (1 l nd source_address keys dests redeem_script input_txs)
  then show ?case by (simp add: get_fee_interactive.simps split: if_splits)
next
  case (2 l nd source_address keys dests redeem_script input_txs line rest')
  from "2.prems" show ?case
    by (auto simp add: get_fee_interactive.simps computed_fee_def
        split: if_splits option.splits sum.splits)
qed

text \<open>The example node sizes every transaction at 250: a rate of 10 gives 2500 satoshi.\<close>

lemma example_computed_fee:
  "computed_fee example_node ''src'' [''key''] dests ''script'' txs rate
     = satoshi_to_btc (250 * rate)"
  by (simp add: computed_fee_def create_unsigned_transaction_def sign_transaction_def
      example_node_def)

lemma example_fee_negotiation:
  "get_fee_interactive example_lib example_node ''src'' [''key''] dests ''script'' txs
       (''10'' # ''y'' # rest)
     = Inr (Decimal 2500 (- 8), rest)"
proof -
  have "upper ''y'' = ''Y''" by (simp add: upper_def upper_char_def)
  moreover have "bitcoind_starts example_node" by (simp add: example_node_def)
  moreover have "int_of_str example_lib ''10'' = Some 10" by (simp add: example_lib_def)
  moreover have "satoshi_to_btc (250 * 10) = Inr (Decimal 2500 (- 8))"
    using satoshi_to_btc_exact [of 2500] by simp
  ultimately show ?thesis
    by (simp add: get_fee_interactive.simps example_computed_fee dec_less_max_fee)
qed

lemma example_fee_negotiation_high:
  "get_fee_interactive example_lib example_node ''src'' [''key''] dests ''script'' txs
       (''1600'' # ''y'' # rest)
     = Inr (Decimal 400000 (- 8), rest)"
proof -
  have "upper ''y'' = ''Y''" by (simp add: upper_def upper_char_def)
  moreover have "bitcoind_starts example_node" by (simp add: example_node_def)
  moreover have "int_of_str example_lib ''1600'' = Some 1600" by (simp add: example_lib_def)
  moreover have "satoshi_to_btc (250 * 1600) = Inr (Decimal 400000 (- 8))"
    using satoshi_to_btc_exact [of 400000] by simp
  ultimately show ?thesis
    by (simp add: get_fee_interactive.simps example_computed_fee dec_less_max_fee)
qed

text \<open>
  The same node, except that it fails to build any transaction: no fee is negotiated.
\<close>

lemma failing_node_fee_negotiation:
  "get_fee_interactive example_lib (example_node\<lparr>createrawtransaction := \<lambda>inputs outputs. None\<rparr>)
       ''src'' [''key''] dests ''script'' txs (''10'' # rest)
     = Inl CalledProcessError"
  "get_fee_interactive example_lib (example_node\<lparr>createrawtransaction := \<lambda>inputs outputs. None\<rparr>)
       ''src'' [''key''] dests ''script'' txs (''1600'' # rest)
     = Inl CalledProcessError"
  by (simp_all add: get_fee_interactive.simps computed_fee_def create_unsigned_transaction_def
      example_node_def example_lib_def)

text \<open>The input amounts of the examples, as the script computes them.\<close>

lemma example_utxo_sum:
  "utxo_sum (get_utxos (example_tx (PyFloat 1 0)) ''src'') (Decimal 0 (- 8))
     = Inr (Decimal 100000000 (- 8))"
  "utxo_sum (get_utxos (example_tx (PyFloat 1 8)) ''src'') (Decimal 0 (- 8))
     = Inr (Decimal 390625 (- 8))"
  by (simp_all add: get_utxos_def example_tx_def quantize_def SATOSHI_PLACES_def dec_rescale_def
      dec_fix_def prec_def ndigits.simps dec_add_def Let_def)

lemma withdraw_fee_amount_change_after_fee:
  assumes "\<bar>i\<bar> < 10 ^ 27" "\<bar>f\<bar> < 10 ^ 27" "\<bar>w\<bar> < 10 ^ 27"
    and "get_fee_interactive l nd source_address keys
           (initial_addresses source_address dest_address) redeem_script txs stdin
         = Inr (Decimal f (- 8), line # rest)"
    and "line = [] \<and> w = i - f \<or>
         line \<noteq> [] \<and> (\<exists>amount. decimal_of_str l line = Some amount
                            \<and> quantize amount SATOSHI_PLACES = Inr (Decimal w (- 8)))"
  shows "withdraw_fee_amount_change l nd source_address dest_address redeem_script txs keys
           (Decimal i (- 8)) stdin =
           (if i < f then Inl SystemExit
            else if i < f + w then Inl (Exception ''Output values greater than input value'')
            else Inr ((Decimal f (- 8),
                       \<lparr>plan_withdrawal_amount = Decimal w (- 8),
                        plan_change_amount = floor_change (Decimal (i - w - f) (- 8)),
                        plan_addresses =
                          od_set source_address
                            (StrVal (py_str (floor_change (Decimal (i - w - f) (- 8)))))
                            (od_set dest_address (StrVal (dec_str (Decimal w (- 8))))
                               (initial_addresses source_address dest_address))\<rparr>),
                      rest))"
  using assms(5)
proof
  assume "line = [] \<and> w = i - f"
  then show ?thesis
    using assms(1,2)
    by (simp add: withdraw_fee_amount_change_def assms(4) withdraw_finalize_def
        withdraw_amounts_blank)
next
  assume "line \<noteq> [] \<and> (\<exists>amount. decimal_of_str l line = Some amount
                            \<and> quantize amount SATOSHI_PLACES = Inr (Decimal w (- 8)))"
  then obtain amount where a: "line \<noteq> []" "decimal_of_str l line = Some amount"
      "quantize amount SATOSHI_PLACES = Inr (Decimal w (- 8))"
    by blast
  show ?thesis
    by (simp add: withdraw_fee_amount_change_def assms(4) a(1,2) withdraw_finalize_def
        withdraw_amounts_entered [OF assms(1,2,3) a(3)])
qed

text \<open>
  C2 as stated fails in its clause on the order of events: the plan is not rejected before
  any unsigned transaction is assembled. With one unspent output of 0.00390625 bitcoin and
  a rate of 1600 satoshi per byte the fee is 0.00400000, above the input, and the run ends
  in \<open>SystemExit\<close>; with one output of 1 bitcoin, a rate of 10 and the amount 1 the
  outputs exceed the input and the exception is raised. In both runs the node has by then
  built the transaction that sizes the fee: it answered \<^verbatim>\<open>createrawtransaction\<close>, and
  with a node that fails this command the same two runs end in \<open>CalledProcessError\<close>
  instead, before either rejection.
\<close>

theorem rejected_after_transaction_assembled:
  "utxo_sum (get_utxos (example_tx (PyFloat 1 8)) ''src'') (Decimal 0 (- 8))
     = Inr (Decimal 390625 (- 8)) \<and>
   withdraw_pass example_lib example_node ''src'' ''dst'' ''script'' [example_tx (PyFloat 1 8)]
       [''key''] (Decimal 390625 (- 8)) [''1600'', ''y'', ''1'', ''y'']
     = Inl SystemExit \<and>
   utxo_sum (get_utxos (example_tx (PyFloat 1 0)) ''src'') (Decimal 0 (- 8))
     = Inr (Decimal 100000000 (- 8)) \<and>
   withdraw_pass example_lib example_node ''src'' ''dst'' ''script'' [example_tx (PyFloat 1 0)]
       [''key''] (Decimal 100000000 (- 8)) [''10'', ''y'', ''1'', ''y'']
     = Inl (Exception ''Output values greater than input value'') \<and>
   create_unsigned_transaction example_node ''src'' (initial_addresses ''src'' ''dst'') ''script''
       [example_tx (PyFloat 1 8)]
     = Inr ''0200'' \<and>
   create_unsigned_transaction example_node ''src'' (initial_addresses ''src'' ''dst'') ''script''
       [example_tx (PyFloat 1 0)]
     = Inr ''0200'' \<and>
   withdraw_pass example_lib (example_node\<lparr>createrawtransaction := \<lambda>inputs outputs. None\<rparr>)
       ''src'' ''dst'' ''script'' [example_tx (PyFloat 1 8)]
       [''key''] (Decimal 390625 (- 8)) [''1600'', ''y'', ''1'', ''y'']
     = Inl CalledProcessError \<and>
   withdraw_pass example_lib (example_node\<lparr>createrawtransaction := \<lambda>inputs outputs. None\<rparr>)
       ''src'' ''dst'' ''script'' [example_tx (PyFloat 1 0)]
       [''key''] (Decimal 100000000 (- 8)) [''10'', ''y'', ''1'', ''y'']
     = Inl CalledProcessError"
proof -
  have one: "decimal_of_str example_lib ''1'' = Some (Decimal 1 0)"
    by (simp add: example_lib_def)
  have q: "quantize (Decimal 1 0) SATOSHI_PLACES = Inr (Decimal 100000000 (- 8))"
    by (simp add: quantize_def SATOSHI_PLACES_def dec_rescale_def dec_fix_def prec_def
        ndigits.simps)
  have entry: "''1'' = [] \<and> (100000000::int) = i - f \<or>
         ''1'' \<noteq> [] \<and> (\<exists>amount. decimal_of_str example_lib ''1'' = Some amount
                            \<and> quantize amount SATOSHI_PLACES = Inr (Decimal 100000000 (- 8)))"
    for i f :: int
    using one q by simp
  have exit: "withdraw_fee_amount_change example_lib example_node ''src'' ''dst'' ''script''
       [example_tx (PyFloat 1 8)] [''key''] (Decimal 390625 (- 8)) [''1600'', ''y'', ''1'', ''y'']
     = Inl SystemExit"
    using withdraw_fee_amount_change_after_fee [OF _ _ _ example_fee_negotiation_high entry,
        of 390625]
    by simp
  have exc: "withdraw_fee_amount_change example_lib example_node ''src'' ''dst'' ''script''
       [example_tx (PyFloat 1 0)] [''key''] (Decimal 100000000 (- 8)) [''10'', ''y'', ''1'', ''y'']
     = Inl (Exception ''Output values greater than input value'')"
    using withdraw_fee_amount_change_after_fee [OF _ _ _ example_fee_negotiation entry,
        of 100000000]
    by simp
  have built: "create_unsigned_transaction example_node ''src'' dests ''script'' txs = Inr ''0200''"
    for dests txs
    by (simp add: create_unsigned_transaction_def example_node_def)
  have fails: "withdraw_fee_amount_change example_lib
         (example_node\<lparr>createrawtransaction := \<lambda>inputs outputs. None\<rparr>)
         ''src'' ''dst'' ''script'' txs [''key''] input_amount (''1600'' # rest)
       = Inl CalledProcessError"
    "withdraw_fee_amount_change example_lib
         (example_node\<lparr>createrawtransaction := \<lambda>inputs outputs. None\<rparr>)
         ''src'' ''dst'' ''script'' txs [''key''] input_amount (''10'' # rest)
       = Inl CalledProcessError"
    for txs input_amount rest
    by (simp_all add: withdraw_fee_amount_change_def failing_node_fee_negotiation)
  show ?thesis
    by (simp add: withdraw_pass_def exit exc built example_utxo_sum fails)
qed

text \<open>
  C2, as the code has it. Amounts are in satoshi and below \<open>10^27\<close> in magnitude: the
  input is \<open>i\<close>, the negotiated fee \<open>f\<close>, and \<open>w\<close> the amount of the line the
  operator types, rounded to eight places, or \<open>i - f\<close> for a blank line. By the time the
  fee is known the node has built and signed a transaction over the placeholder amounts. A
  fee above the input then ends the run in \<open>SystemExit\<close>; otherwise a withdrawal that
  with the fee exceeds the input raises the exception; otherwise nothing is raised, the
  plan holds the withdrawal \<open>w\<close> and the change computed from \<open>i - w - f\<close>, and it
  goes to the operator. The transaction of the plan is built and signed only for a plan
  that was not rejected and that the operator confirmed.
\<close>

theorem withdraw_rejects_overspend:
  assumes "\<bar>i\<bar> < 10 ^ 27" "\<bar>f\<bar> < 10 ^ 27" "\<bar>w\<bar> < 10 ^ 27"
    and "get_fee_interactive l nd source_address keys
           (initial_addresses source_address dest_address) redeem_script txs stdin
         = Inr (Decimal f (- 8), line # rest)"
    and "line = [] \<and> w = i - f \<or>
         line \<noteq> [] \<and> (\<exists>amount. decimal_of_str l line = Some amount
                            \<and> quantize amount SATOSHI_PLACES = Inr (Decimal w (- 8)))"
  shows "(\<exists>unsigned_tx. create_unsigned_transaction nd source_address
                          (initial_addresses source_address dest_address) redeem_script txs
                        = Inr unsigned_tx
            \<and> (\<exists>signed. sign_transaction nd source_address keys redeem_script unsigned_tx txs
                          = Inr signed))
       \<and> (if i < f then
            withdraw_fee_amount_change l nd source_address dest_address redeem_script txs keys
                (Decimal i (- 8)) stdin = Inl SystemExit
            \<and> withdraw_pass l nd source_address dest_address redeem_script txs keys
                (Decimal i (- 8)) stdin = Inl SystemExit
          else if i < f + w then
            withdraw_fee_amount_change l nd source_address dest_address redeem_script txs keys
                (Decimal i (- 8)) stdin
              = Inl (Exception ''Output values greater than input value'')
            \<and> withdraw_pass l nd source_address dest_address redeem_script txs keys
                (Decimal i (- 8)) stdin
              = Inl (Exception ''Output values greater than input value'')
          else
            (\<exists>plan.
               withdraw_fee_amount_change l nd source_address dest_address redeem_script txs keys
                   (Decimal i (- 8)) stdin
                 = Inr ((Decimal f (- 8), plan), rest)
               \<and> plan_withdrawal_amount plan = Decimal w (- 8)
               \<and> plan_change_amount plan = floor_change (Decimal (i - w - f) (- 8))
               \<and> withdraw_pass l nd source_address dest_address redeem_script txs keys
                   (Decimal i (- 8)) stdin
                 = (case yes_no_interactive rest of
                      Inl e \<Rightarrow> Inl e
                    | Inr (confirm, rest') \<Rightarrow>
                        if \<not> confirm then Inr (None, rest')
                        else (case create_unsigned_transaction nd source_address
                                      (plan_addresses plan) redeem_script txs of
                                Inl e \<Rightarrow> Inl e
                              | Inr unsigned_tx \<Rightarrow>
                                  (case sign_transaction nd source_address keys redeem_script
                                          unsigned_tx txs of
                                     Inl e \<Rightarrow> Inl e
                                   | Inr signed \<Rightarrow> Inr (Some (unsigned_tx, signed), rest'))))))"
proof -
  note part = withdraw_fee_amount_change_after_fee [OF assms]
  have built: "\<exists>unsigned_tx. create_unsigned_transaction nd source_address
                          (initial_addresses source_address dest_address) redeem_script txs
                        = Inr unsigned_tx
            \<and> (\<exists>signed. sign_transaction nd source_address keys redeem_script unsigned_tx txs
                          = Inr signed)"
    using assms(4) by (rule get_fee_interactive_built)
  show ?thesis
  proof (cases "i < f")
    case True
    then show ?thesis using built by (simp add: withdraw_pass_def part)
  next
    case fee_ok: False
    show ?thesis
    proof (cases "i < f + w")
      case True
      then show ?thesis using built fee_ok by (simp add: withdraw_pass_def part)
    next
      case False
      then show ?thesis using built fee_ok
        by (simp add: withdraw_pass_def part split: sum.split)
    qed
  qed
qed

text \<open>
  A run with one unspent output of 1 bitcoin: a rate of 10 gives a fee of 0.00002500, the
  operator asks for 0.5 and confirms. The change is 0.49997500, and the transaction of the
  plan is built and signed.
\<close>

theorem withdraw_rejects_overspend_witness:
  "(\<exists>unsigned_tx. create_unsigned_transaction example_node ''src''
                     (initial_addresses ''src'' ''dst'') ''script'' [example_tx (PyFloat 1 0)]
                   = Inr unsigned_tx
       \<and> (\<exists>signed. sign_transaction example_node ''src'' [''key''] ''script'' unsigned_tx
                      [example_tx (PyFloat 1 0)]
                    = Inr signed)) \<and>
   withdraw_fee_amount_change example_lib example_node ''src'' ''dst'' ''script''
       [example_tx (PyFloat 1 0)] [''key''] (Decimal 100000000 (- 8)) [''10'', ''y'', ''0.5'', ''y'']
     = Inr ((Decimal 2500 (- 8),
             \<lparr>plan_withdrawal_amount = Decimal 50000000 (- 8),
              plan_change_amount = PyDec (Decimal 49997500 (- 8)),
              plan_addresses = [(''src'', StrVal ''0.49997500''), (''dst'', StrVal ''0.50000000'')]\<rparr>),
            [''y'']) \<and>
   withdraw_pass example_lib example_node ''src'' ''dst'' ''script'' [example_tx (PyFloat 1 0)]
       [''key''] (Decimal 100000000 (- 8)) [''10'', ''y'', ''0.5'', ''y'']
     = Inr (Some (''0200'', \<lparr>stx_hex = ''0200ff'', stx_complete = True\<rparr>), [])"
proof -
  have half: "decimal_of_str example_lib ''0.5'' = Some (Decimal 5 (- 1))"
    by (simp add: example_lib_def)
  have entry: "''0.5'' = [] \<and> (50000000::int) = 100000000 - 2500 \<or>
         ''0.5'' \<noteq> [] \<and> (\<exists>amount. decimal_of_str example_lib ''0.5'' = Some amount
                            \<and> quantize amount SATOSHI_PLACES = Inr (Decimal 50000000 (- 8)))"
    using half quantize_examples(1) by simp
  have yes: "upper ''y'' = ''Y''" by (simp add: upper_def upper_char_def)
  have node: "create_unsigned_transaction example_node ''src'' dests ''script'' txs = Inr ''0200''"
    "sign_transaction example_node ''src'' [''key''] ''script'' ''0200'' txs
       = Inr \<lparr>stx_hex = ''0200ff'', stx_complete = True\<rparr>"
    for dests txs
    by (simp_all add: create_unsigned_transaction_def sign_transaction_def example_node_def)
  have strs: "dec_str (Decimal 49997500 (- 8)) = ''0.49997500''"
    "dec_str (Decimal 50000000 (- 8)) = ''0.50000000''"
    by (simp_all add: dec_str_def str_nat.simps)
  have part: "withdraw_fee_amount_change example_lib example_node ''src'' ''dst'' ''script''
       [example_tx (PyFloat 1 0)] [''key''] (Decimal 100000000 (- 8)) [''10'', ''y'', ''0.5'', ''y'']
     = Inr ((Decimal 2500 (- 8),
             \<lparr>plan_withdrawal_amount = Decimal 50000000 (- 8),
              plan_change_amount = PyDec (Decimal 49997500 (- 8)),
              plan_addresses = [(''src'', StrVal ''0.49997500''), (''dst'', StrVal ''0.50000000'')]\<rparr>),
            [''y''])"
    using withdraw_fee_amount_change_after_fee [OF _ _ _ example_fee_negotiation entry]
    by (simp add: floor_change_satoshi initial_addresses_def strs)
  from withdraw_rejects_overspend [where dest_address = "''dst''"
      and txs = "[example_tx (PyFloat 1 0)]" and rest = "[''y'']",
      OF _ _ _ example_fee_negotiation entry]
  show ?thesis
    by (auto simp add: part yes node)
qed

section \<open>Splitting data over QR codes\<close>

lemma MAX_QR_LEN_pos: "0 < MAX_QR_LEN u"
  by (simp add: MAX_QR_LEN_def)

lemma qr_split_concat: "concat (map snd (qr_split base ext u idx intdata)) = intdata"
proof (induction base ext u idx intdata rule: qr_split.induct)
  case (1 base ext u idx intdata)
  show ?case
  proof (cases "0 < length intdata")
    case True
    with "1.IH" show ?thesis by (subst qr_split.simps) simp
  next
    case False
    then show ?thesis by (subst qr_split.simps) simp
  qed
qed

lemma ceil_div_step:
  fixes n m :: nat
  assumes "0 < n" "0 < m"
  shows "Suc ((n - m + m - 1) div m) = (n + m - 1) div m"
proof -
  define k where "k = n - 1"
  have n: "n = Suc k" using assms(1) by (simp add: k_def)
  have r: "(n + m - 1) div m = Suc (k div m)"
  proof -
    have "n + m - 1 = k + m" by (simp add: n)
    moreover have "(k + m) div m = Suc (k div m)"
      using assms(2) div_add_self2 [of m k] by linarith
    ultimately show ?thesis by (simp only:)
  qed
  show ?thesis
  proof (cases "m \<le> n")
    case True
    then have "n - m + m - 1 = k" by (simp add: n)
    then show ?thesis by (simp only: r)
  next
    case False
    then have "k < m" "n - m + m - 1 = m - 1" by (simp_all add: n)
    then have "k div m = 0" "(n - m + m - 1) div m = 0" using assms(2) by simp_all
    then show ?thesis by (simp only: r)
  qed
qed

lemma qr_split_length:
  "length (qr_split base ext u idx intdata)
     = (length intdata + MAX_QR_LEN u - 1) div MAX_QR_LEN u"
proof (induction base ext u idx intdata rule: qr_split.induct)
  case (1 base ext u idx intdata)
  show ?case
  proof (cases "0 < length intdata")
    case True
    have "length (qr_split base ext u idx intdata)
            = Suc (length (qr_split base ext u (idx + 1) (drop (MAX_QR_LEN u) intdata)))"
      using True by (subst qr_split.simps) simp
    also have "\<dots> = Suc ((length intdata - MAX_QR_LEN u + MAX_QR_LEN u - 1) div MAX_QR_LEN u)"
      using "1.IH" True by simp
    also have "\<dots> = (length intdata + MAX_QR_LEN u - 1) div MAX_QR_LEN u"
      using True MAX_QR_LEN_pos by (rule ceil_div_step)
    finally show ?thesis .
  next
    case False
    then show ?thesis using MAX_QR_LEN_pos [of u] by (subst qr_split.simps) simp
  qed
qed

lemma qr_split_names:
  "map fst (qr_split base ext u idx intdata)
     = map (\<lambda>k. base @ ''-'' @ format_02d k @ ext)
         [idx ..< idx + length (qr_split base ext u idx intdata)]"
proof (induction base ext u idx intdata rule: qr_split.induct)
  case (1 base ext u idx intdata)
  show ?case
  proof (cases "0 < length intdata")
    case True
    define rest where "rest = qr_split base ext u (idx + 1) (drop (MAX_QR_LEN u) intdata)"
    have unfold: "qr_split base ext u idx intdata
            = (base @ ''-'' @ format_02d idx @ ext, take (MAX_QR_LEN u) intdata) # rest"
      using True by (subst qr_split.simps) (simp add: rest_def)
    have ih: "map fst rest = map (\<lambda>k. base @ ''-'' @ format_02d k @ ext)
                 [idx + 1 ..< idx + 1 + length rest]"
      using "1.IH" True by (simp add: rest_def)
    have len: "length (qr_split base ext u idx intdata) = Suc (length rest)"
      by (simp add: unfold)
    have "[idx ..< idx + Suc (length rest)] = idx # [Suc idx ..< idx + Suc (length rest)]"
      by (rule upt_conv_Cons) simp
    moreover have "idx + Suc (length rest) = idx + 1 + length rest" and "Suc idx = idx + 1"
      by simp_all
    ultimately have "[idx ..< idx + length (qr_split base ext u idx intdata)]
            = idx # [idx + 1 ..< idx + 1 + length rest]"
      by (simp only: len)
    moreover have "map fst (qr_split base ext u idx intdata)
            = (base @ ''-'' @ format_02d idx @ ext) # map fst rest"
      by (simp add: unfold)
    ultimately show ?thesis by (simp only: ih list.map)
  next
    case False
    then show ?thesis by (subst (1 2) qr_split.simps) simp
  qed
qed

lemma str_nat_not_Nil: "str_nat k \<noteq> []"
  by (subst str_nat.simps) simp

lemma str_nat_length2: "10 \<le> k \<Longrightarrow> 2 \<le> length (str_nat k)"
  using str_nat_not_Nil [of "k div 10"]
  by (subst str_nat.simps) (cases "str_nat (k div 10)", simp_all)

lemma str_nat_length1: "k < 10 \<Longrightarrow> length (str_nat k) = 1"
  by (subst str_nat.simps) simp

lemma format_02d_eq: "format_02d k = (if k < 10 then CHR ''0'' # str_nat k else str_nat k)"
  using str_nat_length2 [of k] by (auto simp add: format_02d_def Let_def str_nat_length1)

lemma qr_files_short: "length data \<le> 2800 \<Longrightarrow> qr_files filename data = [(filename, data)]"
  by (simp add: qr_files_def MAX_QR_LEN_def Let_def)

text \<open>
  C9, as the code has it. With the threshold 4200 for data that upper-casing leaves
  unchanged and 2800 otherwise: data no longer than the threshold is written as one
  file under the given name. Longer data is written as \<open>ceil(length / threshold)\<close>
  files, named by base, a hyphen, the index counted from 1 and the extension, where an
  index below 10 gets one leading zero and any other index is written as it is. In both
  cases the contents of the files, joined in order, are the data.
\<close>

theorem qr_files_split:
  "(if length data \<le> MAX_QR_LEN (upper data = data)
    then qr_files filename data = [(filename, data)]
    else length (qr_files filename data)
           = (length data + MAX_QR_LEN (upper data = data) - 1) div MAX_QR_LEN (upper data = data)
       \<and> map fst (qr_files filename data)
           = map (\<lambda>k. fst (splitext filename) @ ''-''
                       @ (if k < 10 then CHR ''0'' # str_nat k else str_nat k)
                       @ snd (splitext filename))
               [1 ..< Suc (length (qr_files filename data))])
   \<and> concat (map snd (qr_files filename data)) = data"
proof (cases "length data \<le> MAX_QR_LEN (upper data = data)")
  case True
  then show ?thesis by (simp add: qr_files_def)
next
  case False
  then have files: "qr_files filename data
      = qr_split (fst (splitext filename)) (snd (splitext filename)) (upper data = data) 1 data"
    by (simp add: qr_files_def)
  have "map fst (qr_files filename data)
          = map (\<lambda>k. fst (splitext filename) @ ''-'' @ format_02d k @ snd (splitext filename))
              [1 ..< 1 + length (qr_files filename data)]"
    unfolding files by (rule qr_split_names)
  then have names: "map fst (qr_files filename data)
          = map (\<lambda>k. fst (splitext filename) @ ''-''
                      @ (if k < 10 then CHR ''0'' # str_nat k else str_nat k)
                      @ snd (splitext filename))
              [1 ..< Suc (length (qr_files filename data))]"
    by (simp add: format_02d_eq)
  have "length (qr_files filename data)
          = (length data + MAX_QR_LEN (upper data = data) - 1) div MAX_QR_LEN (upper data = data)"
    unfolding files by (rule qr_split_length)
  moreover have "concat (map snd (qr_files filename data)) = data"
    unfolding files by (rule qr_split_concat)
  ultimately show ?thesis using False names by simp
qed

lemma splitext_transaction: "splitext ''transaction.png'' = (''transaction'', ''.png'')"
  by (simp add: splitext_def rfind_def)

lemma qr_hundredth_file:
  assumes up: "upper data = data" and len: "length data = 415801"
  shows "length (qr_files ''transaction.png'' data) = 100 \<and>
         ''transaction-100.png'' \<in> fst ` set (qr_files ''transaction.png'' data)"
proof -
  have files: "qr_files ''transaction.png'' data = qr_split ''transaction'' ''.png'' True 1 data"
    using up len by (simp add: qr_files_def MAX_QR_LEN_def splitext_transaction)
  have n: "length (qr_files ''transaction.png'' data) = 100"
    by (simp add: files qr_split_length len MAX_QR_LEN_def)
  define f where "f = (\<lambda>k. ''transaction'' @ ''-'' @ format_02d k @ ''.png'')"
  have "map fst (qr_split ''transaction'' ''.png'' True 1 data)
          = map f [1 ..< 1 + length (qr_split ''transaction'' ''.png'' True 1 data)]"
    unfolding f_def by (rule qr_split_names)
  then have "map fst (qr_files ''transaction.png'' data) = map f [1 ..< 1 + 100]"
    using n by (simp only: files)
  then have "fst ` set (qr_files ''transaction.png'' data) = f ` set [1 ..< 1 + 100]"
    by (simp only: set_map [symmetric])
  moreover have "f 100 \<in> f ` set [1 ..< 1 + 100]" by (rule imageI) simp
  moreover have "f 100 = ''transaction-100.png''"
    by (simp add: f_def format_02d_def str_nat.simps)
  ultimately have "''transaction-100.png'' \<in> fst ` set (qr_files ''transaction.png'' data)"
    by (simp only:)
  with n show ?thesis by (simp only: simp_thms)
qed

lemma upper_replicate_zero: "upper (replicate n (CHR ''0'')) = replicate n (CHR ''0'')"
proof -
  have "upper_char (CHR ''0'') = CHR ''0''" by (simp add: upper_char_def)
  then show ?thesis by (simp only: upper_def map_replicate)
qed

text \<open>
  C9 as stated fails on the names. Data of 415801 characters \<^verbatim>\<open>0\<close>, which
  upper-casing leaves unchanged, is split at the threshold 4200 into a hundred files,
  and the last one is \<^verbatim>\<open>transaction-100.png\<close>: its index has three digits.
\<close>

theorem qr_three_digit_suffix:
  "length (qr_files ''transaction.png'' (replicate 415801 (CHR ''0''))) = 100 \<and>
   ''transaction-100.png'' \<in> fst ` set (qr_files ''transaction.png'' (replicate 415801 (CHR ''0'')))"
proof (rule qr_hundredth_file)
  show "upper (replicate 415801 (CHR ''0'')) = replicate 415801 (CHR ''0'')"
    by (rule upper_replicate_zero)
  show "length (replicate 415801 (CHR ''0'')) = 415801"
    by (simp only: length_replicate)
qed

section \<open>Deposit: the number of required keys\<close>

lemma make_keys_length:
  "make_keys l d r n keys stdin = Inr (keys', rest) \<Longrightarrow>
     length keys' = max (length keys) (nat n)"
proof (induction l d r n keys stdin rule: make_keys.induct)
  case (1 l d r n keys stdin)
  show ?case
  proof (cases "int (length keys) < n")
    case True
    from "1.prems" True obtain dice s1 rng s2 hex where
      steps: "read_dice_seed_interactive d stdin = Inr (dice, s1)"
        "read_rng_seed_interactive r s1 = Inr (rng, s2)"
        "xor_hex_strings (sha256 l dice) (sha256 l rng) = Inr hex"
        "make_keys l d r n (keys @ [hex_private_key_to_WIF_private_key l hex]) s2 = Inr (keys', rest)"
      by (subst (asm) make_keys.simps) (auto split: sum.splits)
    from "1.IH" [OF True steps(1) refl steps(2) refl steps(3) steps(4)]
    have "length keys' = max (length (keys @ [hex_private_key_to_WIF_private_key l hex])) (nat n)" .
    with True show ?thesis by simp
  next
    case False
    with "1.prems" have "keys' = keys" by (subst (asm) make_keys.simps) simp
    with False show ?thesis by simp
  qed
qed

lemma get_addresses_length:
  "get_addresses l nd keys = (calls, Inr addrs) \<Longrightarrow> length addrs = length keys"
  by (induction keys arbitrary: calls addrs) (auto split: prod.splits sum.splits)

lemma deposit_keys_lengths:
  assumes "deposit_keys l nd n d r stdin = (calls, Inr (keys, addrs))"
  shows "length keys = nat n \<and> length addrs = nat n"
proof -
  from assms obtain stdin1 stdin2 calls' where
    k: "make_keys l d r n [] stdin1 = Inr (keys, stdin2)"
    and a: "get_addresses l nd keys = (calls', Inr addrs)"
    by (auto simp add: deposit_keys_def split: sum.splits if_splits option.splits prod.splits)
  from make_keys_length [OF k] get_addresses_length [OF a] show ?thesis by simp
qed

text \<open>
  C8, as the code has it. \<open>deposit_interactive\<close> does not compare \<open>m\<close> with
  \<open>n\<close>. Whenever the checklist, the node's start-up, the key derivation and the
  address look-ups succeed, it has derived \<open>n\<close> keys and resolved \<open>n\<close> addresses, and
  its next call hands \<open>m\<close>, whatever it is, with those addresses to the node's
  \<^verbatim>\<open>addmultisigaddress\<close>; the outcome is the node's answer. For a 1-of-2 request
  this gives two keys and \<open>m = 1\<close>.
\<close>

theorem deposit_passes_m_to_node:
  assumes "deposit_keys l nd n dice_seed_length rng_seed_length stdin = (calls, Inr (keys, addrs))"
  shows "deposit_interactive l nd m n dice_seed_length rng_seed_length p2wsh stdin =
           (calls @ [AddMultisigAddress m addrs (if p2wsh then ''bech32'' else ''p2sh-segwit'')],
            case addmultisigaddress_cli nd m addrs (if p2wsh then ''bech32'' else ''p2sh-segwit'') of
              None \<Rightarrow> Inl CalledProcessError
            | Some (address, redeem_script) \<Rightarrow>
                Inr \<lparr>dep_keys = keys, dep_address = address, dep_redeem_script = redeem_script,
                     dep_files = qr_files ''address.png'' address
                                 @ qr_files ''redemption.png'' redeem_script\<rparr>)
       \<and> length keys = nat n \<and> length addrs = nat n"
  using assms deposit_keys_lengths [OF assms] by (simp add: deposit_interactive_def Let_def)

text \<open>The run of the example: two keys from the lines the operator typed.\<close>

lemma example_checklist:
  "safety_checklist example_deposit_stdin = Inr (drop 6 example_deposit_stdin)"
  by (simp add: safety_checklist_def example_deposit_stdin_def eval_nat_numeral upper_def
      upper_char_def)

lemma example_dice1:
  "read_dice_seed_interactive 62
     (''12345 61234 56123 45612 34561 23456 12345 61234 56123 45612 34561 23456 12'' # rest)
   = Inr (''12345612345612345612345612345612345612345612345612345612345612'', rest)"
  by (simp add: validate_dice_seed_def valid_die_def unchunk_def)

lemma example_dice2:
  "read_dice_seed_interactive 62
     (''65432 16543 21654 32165 43216 54321 65432 16543 21654 32165 43216 54321 65'' # rest)
   = Inr (''65432165432165432165432165432165432165432165432165432165432165'', rest)"
  by (simp add: validate_dice_seed_def valid_die_def unchunk_def)

lemma example_rng1:
  "read_rng_seed_interactive 20 (''0123 4567 89ab cdef 0123 4567 89ab cdef 0123 4567'' # rest)
   = Inr (''0123456789abcdef0123456789abcdef01234567'', rest)"
  by (simp add: read_rng_seed_interactive_def validate_rng_seed_def unchunk_def int_base16_def
      hex_digit_value_def)

lemma example_rng2:
  "read_rng_seed_interactive 20 (''fedc ba98 7654 3210 fedc ba98 7654 3210 fedc ba98'' # rest)
   = Inr (''fedcba9876543210fedcba9876543210fedcba98'', rest)"
  by (simp add: read_rng_seed_interactive_def validate_rng_seed_def unchunk_def int_base16_def
      hex_digit_value_def)

lemma example_xor:
  "xor_hex_strings ''1234'' ''0123'' = Inr ''1317''"
  "xor_hex_strings ''6543'' ''fedc'' = Inr ''9b9f''"
  by (simp_all add: xor_hex_strings_def int_base16_def hex_digit_value_def format_0x_def
      hex_nat.simps)


lemma example_hashes:
  "sha256 example_lib ''12345612345612345612345612345612345612345612345612345612345612'' = ''1234''"
  "sha256 example_lib ''0123456789abcdef0123456789abcdef01234567'' = ''0123''"
  "sha256 example_lib ''65432165432165432165432165432165432165432165432165432165432165'' = ''6543''"
  "sha256 example_lib ''fedcba9876543210fedcba9876543210fedcba98'' = ''fedc''"
  by (simp_all add: example_lib_def)

lemma example_wif:
  "hex_private_key_to_WIF_private_key example_lib ''1317'' = ''80131701''"
  "hex_private_key_to_WIF_private_key example_lib ''9b9f'' = ''809b9f01''"
  by (simp_all add: hex_private_key_to_WIF_private_key_def example_lib_def)

lemma example_make_keys:
  "make_keys example_lib 62 20 2 [] (drop 6 example_deposit_stdin)
     = Inr ([''80131701'', ''809b9f01''], [])"
proof -
  have third: "make_keys example_lib 62 20 2 [''80131701'', ''809b9f01''] []
                 = Inr ([''80131701'', ''809b9f01''], [])"
    by (subst make_keys.simps) simp
  have second: "make_keys example_lib 62 20 2 [''80131701'']
        [''65432 16543 21654 32165 43216 54321 65432 16543 21654 32165 43216 54321 65'',
         ''fedc ba98 7654 3210 fedc ba98 7654 3210 fedc ba98'']
      = Inr ([''80131701'', ''809b9f01''], [])"
    by (subst make_keys.simps)
       (simp add: example_dice2 example_rng2 example_hashes example_xor example_wif third
          del: read_dice_seed_interactive.simps)
  show ?thesis
    by (subst make_keys.simps)
       (simp add: example_deposit_stdin_def example_dice1 example_rng1 example_hashes
          example_xor example_wif second del: read_dice_seed_interactive.simps)
qed

lemma example_addresses:
  "get_addresses example_lib example_node [''80131701'', ''809b9f01'']
     = ([EnsureBitcoindRunning, ImportPrivKey ''80131701'' ''8013'', GetAddressesByLabel ''8013'',
         EnsureBitcoindRunning, ImportPrivKey ''809b9f01'' ''809b'', GetAddressesByLabel ''809b''],
        Inr [''addr-8013'', ''addr-809b''])"
  by (simp add: get_address_for_wif_privkey_def example_lib_def example_node_def Let_def)

lemma example_deposit_keys:
  "deposit_keys example_lib example_node 2 62 20 example_deposit_stdin =
     ([EnsureBitcoindRunning, GetNetworkInfo,
       EnsureBitcoindRunning, ImportPrivKey ''80131701'' ''8013'', GetAddressesByLabel ''8013'',
       EnsureBitcoindRunning, ImportPrivKey ''809b9f01'' ''809b'', GetAddressesByLabel ''809b''],
      Inr ([''80131701'', ''809b9f01''], [''addr-8013'', ''addr-809b'']))"
proof -
  have "bitcoind_starts example_node" "getnetworkinfo_version example_node = Some 220000"
    by (simp_all add: example_node_def)
  then show ?thesis
    by (simp add: deposit_keys_def example_checklist example_make_keys example_addresses
        del: get_addresses.simps)
qed

theorem deposit_passes_m_to_node_witness:
  "deposit_interactive example_lib example_node 1 2 62 20 False example_deposit_stdin =
     ([EnsureBitcoindRunning, GetNetworkInfo,
       EnsureBitcoindRunning, ImportPrivKey ''80131701'' ''8013'', GetAddressesByLabel ''8013'',
       EnsureBitcoindRunning, ImportPrivKey ''809b9f01'' ''809b'', GetAddressesByLabel ''809b'',
       AddMultisigAddress 1 [''addr-8013'', ''addr-809b''] ''p2sh-segwit''],
      Inr \<lparr>dep_keys = [''80131701'', ''809b9f01''], dep_address = ''multisig-address'',
           dep_redeem_script = ''redeem-script'',
           dep_files = [(''address.png'', ''multisig-address''),
                        (''redemption.png'', ''redeem-script'')]\<rparr>)
   \<and> length [''80131701'', ''809b9f01''] = nat 2"
  using deposit_passes_m_to_node [OF example_deposit_keys, of 1 False]
  by (simp add: example_node_def qr_files_short)

text \<open>
  C8 as stated fails. A request for 3 of 2 keys is not refused before the node is
  called: both keys are imported into the node, both addresses are asked of it, and the
  request with \<open>m = 3\<close> is sent to it. The refusal that ends the run is the node's own.
\<close>

theorem deposit_three_of_two_reaches_node:
  "deposit_interactive example_lib example_node 3 2 62 20 False example_deposit_stdin =
     ([EnsureBitcoindRunning, GetNetworkInfo,
       EnsureBitcoindRunning, ImportPrivKey ''80131701'' ''8013'', GetAddressesByLabel ''8013'',
       EnsureBitcoindRunning, ImportPrivKey ''809b9f01'' ''809b'', GetAddressesByLabel ''809b'',
       AddMultisigAddress 3 [''addr-8013'', ''addr-809b''] ''p2sh-segwit''],
      Inl CalledProcessError)"
proof -
  have refused:
    "addmultisigaddress_cli example_node 3 [''addr-8013'', ''addr-809b''] ''p2sh-segwit'' = None"
    by (simp add: example_node_def)
  show ?thesis by (simp add: deposit_interactive_def example_deposit_keys Let_def refused)
qed

end
